theory Spec2Isabelle
  imports Complex_Main "HOL-Library.Sublist"
begin

section \<open>My Focus: the front-end orchestration in \<open>src/assets/js/app.js\<close>\<close>

text \<open>
  The development embeds the parts of \<open>app.js\<close> and \<open>tauri-api.js\<close> that gate, start and
  stop monitoring, track the focus state, bind the current task, deliver interventions and
  build the persisted settings object.

  Conventions.
  \<^item> JavaScript strings are \<open>string\<close>; a property that may be \<open>undefined\<close> or \<open>null\<close> is an
    \<open>option\<close>; truthiness of a string is being non-empty.
  \<^item> Module-level variables, the relevant part of the DOM and \<open>localStorage\<close> are fields of
    one state record; every function takes the state and returns the updated one.
  \<^item> Effects that leave the program (backend commands, dialogs, notifications, sounds,
    storage writes) are appended to the field \<open>effects\<close> of the state, in program order.
  \<^item> \<open>setTimeout\<close> adds an entry to the field \<open>timers\<close>; time is a natural number of
    milliseconds.
  \<^item> A call of an \<open>async\<close> function is modelled as running to completion: what the event
    loop could interleave at its \<open>await\<close> points is not modelled.
  \<^item> \<open>console.log\<close> output and CSS styling are not modelled.
\<close>

subsection \<open>Settings form and the persisted settings object\<close>

text \<open>
  The state of the settings form as the three builders read it. A checkbox is \<open>None\<close> when
  \<open>document.getElementById\<close> finds no element (the optional chaining \<open>?.checked\<close> then gives
  \<open>undefined\<close>), otherwise \<open>Some\<close> of its \<open>checked\<close> property; likewise for the \<open>value\<close> of
  an input.
\<close>

record form =
  current_theme :: string
  whitelist_items :: "string list"
  blacklist_items :: "string list"
  autostart_cb :: "bool option"
  fatigue_notify_cb :: "bool option"
  distraction_intervention_enabled_cb :: "bool option"
  light_distraction_notification_cb :: "bool option"
  severe_distraction_popup_cb :: "bool option"
  encouragement_enabled_cb :: "bool option"
  intervention_sound_cb :: "bool option"
  intervention_cooldown_value :: "string option"
  popup_duration_value :: "string option"
  encouragement_frequency_value :: "string option"

text \<open>
  \<open>intervention_cooldown_minutes\<close> and \<open>popup_duration_seconds\<close> hold the string handed to
  \<open>parseInt\<close>; the parse itself is not modelled.
\<close>

record distraction_intervention =
  enabled :: bool
  light_distraction_notification :: bool
  severe_distraction_popup :: bool
  encouragement_enabled :: bool
  intervention_cooldown_minutes :: string
  notification_sound :: bool
  popup_duration_seconds :: string
  encouragement_frequency :: string

record settings =
  theme :: string
  whitelist :: "string list"
  blacklist :: "string list"
  autostart :: bool
  fatigue_notify :: bool
  focus_duration :: "nat option"
  short_break :: "nat option"
  long_break :: "nat option"
  intervention :: distraction_intervention

text \<open>\<open>el?.checked || d\<close> for a boolean default \<open>d\<close>.\<close>

fun checked_or :: "bool option \<Rightarrow> bool \<Rightarrow> bool" where
  "checked_or None d = d"
| "checked_or (Some c) d = (if c then c else d)"

text \<open>\<open>el?.value || d\<close>: the empty string is falsy.\<close>

fun value_or :: "string option \<Rightarrow> string \<Rightarrow> string" where
  "value_or None d = d"
| "value_or (Some v) d = (if v = [] then d else v)"

text \<open>The object literal under the key \<open>distraction_intervention\<close>, identical in the three builders.\<close>

definition intervention_of_form :: "form \<Rightarrow> distraction_intervention" where
  "intervention_of_form f =
     \<lparr> enabled = checked_or (distraction_intervention_enabled_cb f) True,
       light_distraction_notification = checked_or (light_distraction_notification_cb f) True,
       severe_distraction_popup = checked_or (severe_distraction_popup_cb f) True,
       encouragement_enabled = checked_or (encouragement_enabled_cb f) True,
       intervention_cooldown_minutes = value_or (intervention_cooldown_value f) ''5'',
       notification_sound = checked_or (intervention_sound_cb f) True,
       popup_duration_seconds = value_or (popup_duration_value f) ''10'',
       encouragement_frequency = value_or (encouragement_frequency_value f) ''medium'' \<rparr>"

text \<open>The \<open>settings\<close> object of \<open>saveSettings\<close> (inside \<open>initSettings\<close>).\<close>

definition saveSettings :: "form \<Rightarrow> settings" where
  "saveSettings f =
     \<lparr> theme = current_theme f,
       whitelist = whitelist_items f,
       blacklist = blacklist_items f,
       autostart = checked_or (autostart_cb f) False,
       fatigue_notify = checked_or (fatigue_notify_cb f) False,
       focus_duration = Some 25,
       short_break = Some 5,
       long_break = Some 15,
       intervention = intervention_of_form f \<rparr>"

text \<open>The \<open>settings\<close> object of \<open>autoSaveUserSettings\<close>: the same literal.\<close>

definition autoSaveUserSettings :: "form \<Rightarrow> settings" where
  "autoSaveUserSettings f =
     \<lparr> theme = current_theme f,
       whitelist = whitelist_items f,
       blacklist = blacklist_items f,
       autostart = checked_or (autostart_cb f) False,
       fatigue_notify = checked_or (fatigue_notify_cb f) False,
       focus_duration = Some 25,
       short_break = Some 5,
       long_break = Some 15,
       intervention = intervention_of_form f \<rparr>"

text \<open>
  The \<open>settings\<close> object of \<open>saveTheme(theme)\<close>: the theme is the argument and the three
  timer durations are not part of the literal.
\<close>

definition saveTheme :: "string \<Rightarrow> form \<Rightarrow> settings" where
  "saveTheme th f =
     \<lparr> theme = th,
       whitelist = whitelist_items f,
       blacklist = blacklist_items f,
       autostart = checked_or (autostart_cb f) False,
       fatigue_notify = checked_or (fatigue_notify_cb f) False,
       focus_duration = None,
       short_break = None,
       long_break = None,
       intervention = intervention_of_form f \<rparr>"

text \<open>The five boolean fields of a \<open>distraction_intervention\<close> object.\<close>

definition intervention_flags :: "distraction_intervention \<Rightarrow> bool list" where
  "intervention_flags d =
     [enabled d, light_distraction_notification d, severe_distraction_popup d,
      encouragement_enabled d, notification_sound d]"

subsection \<open>Strings: \<open>trim\<close> and truthiness\<close>

text \<open>
  \<open>String.prototype.trim\<close> strips white space and line terminators from both ends. Of the
  code units below 256, those are TAB, LF, VT, FF, CR, SPACE and NBSP.
\<close>

definition js_whitespace :: "char \<Rightarrow> bool" where
  "js_whitespace c = (of_char c \<in> {9, 10, 11, 12, 13, 32, 160 :: nat})"

definition trim :: "string \<Rightarrow> string" where
  "trim k = rev (dropWhile js_whitespace (rev (dropWhile js_whitespace k)))"

text \<open>The test \<open>!x || x.trim() === ''\<close> on a property that may be missing.\<close>

fun blank :: "string option \<Rightarrow> bool" where
  "blank None = True"
| "blank (Some k) = (k = [] \<or> trim k = [])"

text \<open>Truthiness of a string-valued expression that may be \<open>null\<close> or \<open>undefined\<close>.\<close>

fun truthy :: "string option \<Rightarrow> bool" where
  "truthy None = False"
| "truthy (Some v) = (v \<noteq> [])"

subsection \<open>Backend, page and application state\<close>

text \<open>The Tauri commands that the modelled functions issue through \<open>TauriAPI\<close>.\<close>

datatype command =
  LoadAIConfig | LoadUserSettings | TestAIAPI | SaveMonitoringConfig
  | StartMonitoring | StopMonitoring | TriggerMonitoringCheck

text \<open>
  What \<open>invoke\<close> does for one command: it resolves with an object, resolves with \<open>null\<close>,
  or rejects; \<open>Rejected m\<close> carries the message of the \<open>Error\<close> that \<open>invokeCommand\<close> throws.
\<close>

datatype 'a response = Value 'a | Null | Rejected string

text \<open>The properties that the modelled code reads from the objects the backend returns.\<close>

record ai_config =
  api_key :: "string option"
  detection_model :: "string option"

record user_settings =
  us_whitelist :: "string list option"
  us_blacklist :: "string list option"

record test_result =
  success :: bool
  message :: string

record check_result =
  focus_state :: "string option"
  result_confidence :: "real option"
  result_application_name :: "string option"

text \<open>Titles of the notifications raised by the modelled functions, and their \<open>type\<close>.\<close>

datatype notice =
  MissingApiKey | MissingDetectionModel | ConfigCheckFailed | ListReminder
  | CheckingConnection | ApiConnectionFailed string | ConnectionTestException
  | MonitoringStopped | MonitoringStarted | OperationFailed
  | TaskSelected string | SelectionFailed | TaskCleared | ClearFailed
  | CheckCompleted | CheckFailed
  | EncouragementNotice | SevereWarningNotice | FocusReminderNotice

datatype level = Info | Success | Warning | Error

datatype dialog = ContinueWithoutLists | OpenSettingsAfterFailure

text \<open>
  Effects in program order. \<open>Invoke\<close> is a command handed to \<open>invoke\<close> (its arguments are not
  recorded); \<open>ErrorAlert\<close> is the alert of \<open>handleApiError\<close>; \<open>InPage\<close> is the toast of
  \<open>showInPageNotification\<close>; \<open>SystemNotification\<close> is \<open>new Notification\<close>;
  \<open>PermissionRequest\<close> is \<open>Notification.requestPermission\<close> (what its promise does later is
  not modelled); \<open>Confirm\<close> is a \<open>confirm\<close>
  dialog; \<open>ClickSettingsTab\<close> is the click on \<open>[data-target="settings"]\<close>; \<open>StorageSet\<close> and
  \<open>StorageRemove\<close> are writes to the key \<open>currentSelectedTask\<close> of \<open>localStorage\<close>; \<open>Sound\<close>
  is the oscillator frequency of \<open>playNotificationSound\<close>.
\<close>

datatype effect =
  Invoke command
  | ErrorAlert command string
  | InPage notice level
  | SystemNotification notice
  | PermissionRequest notice
  | Confirm dialog
  | ClickSettingsTab
  | StorageSet string string
  | StorageRemove
  | Sound nat

datatype permission = Granted | Denied | Default

text \<open>Callbacks registered with \<open>setTimeout\<close>.\<close>

datatype timer_action =
  ClickSettingsTabLater
  | ResetProcessing
  | DismissModal
  | RemoveModal nat

text \<open>
  The static markup (\<open>index.html\<close>), which is not among the sources, and the browser:
  whether the elements that the code looks up exist, whether \<open>window\<close> has \<open>Notification\<close>,
  and whether \<open>localStorage.setItem\<close> succeeds (it throws when the quota is exceeded).
\<close>

record page =
  settings_tab :: bool
  monitoring_toggle_btn :: bool
  manual_check_btn :: bool
  current_task_text_el :: bool
  current_task_display_el :: bool
  task_list_el :: bool
  task_selection_modal_el :: bool
  notification_api :: bool
  storage_writable :: bool

text \<open>An \<open>li[data-task-id]\<close> of \<open>#task-list\<close>; \<open>checkbox\<close> is \<open>None\<close> if it has no checkbox.\<close>

record task_item =
  task_id :: string
  task_label :: string
  checkbox :: "bool option"

text \<open>What an element that mirrors the current task shows.\<close>

datatype task_display = NoTask | Shows string

text \<open>
  The value under the key \<open>currentSelectedTask\<close> of \<open>localStorage\<close>, as \<open>loadCurrentTask\<close>
  reads it. \<open>Unparsable\<close>: \<open>JSON.parse\<close> throws or yields \<open>null\<close>, so that reading \<open>task.id\<close>
  throws. \<open>Task tid text\<close>: an object with both strings, which is what \<open>selectCurrentTask\<close>
  writes. \<open>Incomplete tid text\<close>: any other parsed value, with what \<open>task.id\<close> and
  \<open>task.text\<close> read as (\<open>None\<close> for \<open>undefined\<close>; a number or an object without the properties
  is \<open>Incomplete None None\<close>). Properties whose values are not strings are not modelled.
\<close>

datatype stored = Unparsable | Task string string | Incomplete "string option" "string option"

text \<open>
  An element with the id \<open>distraction-modal\<close>: \<open>mid\<close> tells one inserted element from the
  next, \<open>announced_seconds\<close> is the number in its line "closes automatically after ... seconds",
  \<open>fading\<close> is the class \<open>animate-fadeOut\<close>.
\<close>

record modal =
  mid :: nat
  modal_type :: string
  modal_urgent :: bool
  announced_seconds :: "int option"
  fading :: bool

text \<open>
  The state: the module-level variables, the flag \<open>selectCurrentTask.isProcessing\<close>, the
  stored selection, the task list, the dashboard and timer-panel mirrors of the current task,
  whether the task selector is hidden, the elements with the id \<open>distraction-modal\<close> in
  document order, \<open>Notification.permission\<close>, the clock, the pending timers and the effects.
\<close>

record app =
  isMonitoring :: bool
  currentFocusState :: string
  currentSelectedTask :: "string option"
  isProcessing :: bool
  stored_task :: "stored option"
  task_list :: "task_item list"
  current_task_text :: task_display
  current_task_display :: task_display
  selector_hidden :: bool
  distraction_modals :: "modal list"
  next_mid :: nat
  notification_permission :: permission
  now :: nat
  timers :: "(nat \<times> timer_action) list"
  effects :: "effect list"

definition emit :: "effect \<Rightarrow> app \<Rightarrow> app" where
  "emit e s = s\<lparr> effects := effects s @ [e] \<rparr>"

text \<open>\<open>setTimeout(callback, delay)\<close>.\<close>

definition setTimeout :: "nat \<Rightarrow> timer_action \<Rightarrow> app \<Rightarrow> app" where
  "setTimeout delay a s = s\<lparr> timers := timers s @ [(now s + delay, a)] \<rparr>"

text \<open>The commands issued so far, in order.\<close>

definition invocations :: "app \<Rightarrow> command list" where
  "invocations s = concat (map (\<lambda>e. case e of Invoke c \<Rightarrow> [c] | _ \<Rightarrow> []) (effects s))"

subsection \<open>\<open>tauri-api.js\<close>: \<open>safeInvoke\<close>\<close>

text \<open>
  \<open>safeInvoke\<close> never throws: a rejected command goes through \<open>handleApiError\<close>, which alerts
  and returns the object \<open>{success: false, message, response_time_ms: 0}\<close>. The argument
  \<open>err\<close> says how that object reads at the result type. The result is \<open>None\<close> for \<open>null\<close>.
\<close>

definition safeInvoke :: "command \<Rightarrow> (string \<Rightarrow> 'a) \<Rightarrow> 'a response \<Rightarrow> app \<Rightarrow> 'a option \<times> app" where
  "safeInvoke c err r s =
     (let s1 = emit (Invoke c) s in
      case r of
        Value v \<Rightarrow> (Some v, s1)
      | Null \<Rightarrow> (None, s1)
      | Rejected m \<Rightarrow> (Some (err m), emit (ErrorAlert c m) s1))"

definition loadAIConfig :: "ai_config response \<Rightarrow> app \<Rightarrow> ai_config option \<times> app" where
  "loadAIConfig = safeInvoke LoadAIConfig (\<lambda>m. \<lparr> api_key = None, detection_model = None \<rparr>)"

definition loadUserSettings :: "user_settings response \<Rightarrow> app \<Rightarrow> user_settings option \<times> app" where
  "loadUserSettings = safeInvoke LoadUserSettings (\<lambda>m. \<lparr> us_whitelist = None, us_blacklist = None \<rparr>)"

definition testAIAPI :: "test_result response \<Rightarrow> app \<Rightarrow> test_result option \<times> app" where
  "testAIAPI = safeInvoke TestAIAPI (\<lambda>m. \<lparr> success = False, message = m \<rparr>)"

subsection \<open>Notifications\<close>

text \<open>
  \<open>showNotification(title, message, type, showSystemNotification)\<close>: the toast always, the
  system notification on request. The timers that animate and remove the toast are not
  modelled.
\<close>

definition showNotification :: "page \<Rightarrow> notice \<Rightarrow> level \<Rightarrow> bool \<Rightarrow> app \<Rightarrow> app" where
  "showNotification pg title lv showSystemNotification s =
     (let s1 = emit (InPage title lv) s in
      if showSystemNotification \<and> notification_api pg then
        (if notification_permission s1 = Granted then emit (SystemNotification title) s1
         else if notification_permission s1 \<noteq> Denied then emit (PermissionRequest title) s1
         else s1)
      else s1)"

subsection \<open>Focus status\<close>

text \<open>
  The argument of \<open>updateFocusStatus\<close>: a string, an object (with the properties the function
  reads), or anything falsy.
\<close>

record focus_payload =
  state :: "string option"
  confidence :: "real option"
  application_name :: "string option"

datatype payload = PString string | PObject focus_payload | PFalsy

text \<open>
  \<open>updateFocusStatus\<close>: a string is taken as the new state; of an object the property
  \<open>state\<close> is taken if it is truthy; otherwise the function returns before the assignment to
  \<open>currentFocusState\<close>. The lookup in \<open>statusConfig\<close> that follows the assignment only
  restyles the status circle.
\<close>

fun updateFocusStatus :: "payload \<Rightarrow> app \<Rightarrow> app" where
  "updateFocusStatus (PString newState) s = s\<lparr> currentFocusState := newState \<rparr>"
| "updateFocusStatus (PObject p) s =
     (if truthy (state p) then s\<lparr> currentFocusState := the (state p) \<rparr> else s)"
| "updateFocusStatus PFalsy s = s"

text \<open>The own properties of the object literal \<open>focusStateMap\<close>.\<close>

fun focusStateMap :: "string \<Rightarrow> string option" where
  "focusStateMap k =
     (if k = ''Focused'' then Some ''focused''
      else if k = ''Distracted'' then Some ''distracted''
      else if k = ''SeverelyDistracted'' then Some ''severely_distracted''
      else if k = ''Unknown'' then Some ''idle''
      else None)"

text \<open>
  Property names that every object literal inherits from \<open>Object.prototype\<close>: a lookup of
  one of them in \<open>focusStateMap\<close> yields a function or an object, which is truthy.
\<close>

definition object_prototype_names :: "string list" where
  "object_prototype_names =
     [''constructor'', ''__proto__'', ''hasOwnProperty'', ''isPrototypeOf'',
      ''propertyIsEnumerable'', ''toLocaleString'', ''toString'', ''valueOf'',
      ''__defineGetter__'', ''__defineSetter__'', ''__lookupGetter__'', ''__lookupSetter__'']"

text \<open>
  \<open>updateDashboardFocusState\<close>: \<open>focusStateMap[result.focus_state] || 'idle'\<close> is handed to
  \<open>updateFocusStatus\<close>. An inherited property reaches \<open>updateFocusStatus\<close> as an object
  without \<open>state\<close>.
\<close>

definition updateDashboardFocusState :: "check_result \<Rightarrow> app \<Rightarrow> app" where
  "updateDashboardFocusState result s =
     (case focus_state result of
        None \<Rightarrow> updateFocusStatus (PString ''idle'') s
      | Some k \<Rightarrow>
          (case focusStateMap k of
             Some mappedState \<Rightarrow> updateFocusStatus (PString mappedState) s
           | None \<Rightarrow>
               if k \<in> set object_prototype_names
               then updateFocusStatus
                      (PObject \<lparr> state = None, confidence = None, application_name = None \<rparr>) s
               else updateFocusStatus (PString ''idle'') s))"

text \<open>
  \<open>triggerManualCheck\<close>. A rejected command comes back from \<open>safeInvoke\<close> as the error
  object, which has no \<open>focus_state\<close>; a \<open>null\<close> result makes \<open>result.focus_state\<close> throw, which
  the \<open>catch\<close> block reports. The modal of \<open>showMonitoringResult\<close> is not modelled.
\<close>

definition triggerManualCheck :: "page \<Rightarrow> check_result response \<Rightarrow> app \<Rightarrow> app" where
  "triggerManualCheck pg r s =
     (if \<not> manual_check_btn pg then s
      else
        let (result, s1) =
              safeInvoke TriggerMonitoringCheck
                (\<lambda>m. \<lparr> focus_state = None, result_confidence = None,
                        result_application_name = None \<rparr>) r s
        in case result of
             None \<Rightarrow> showNotification pg CheckFailed Info False s1
           | Some res \<Rightarrow>
               showNotification pg CheckCompleted Info False (updateDashboardFocusState res s1))"

subsection \<open>The checks before monitoring starts\<close>

text \<open>
  \<open>checkAIConfiguration\<close>. Reading \<open>api_key\<close> of \<open>null\<close> throws, which the \<open>catch\<close> block
  turns into \<open>false\<close>.
\<close>

definition checkAIConfiguration :: "page \<Rightarrow> ai_config response \<Rightarrow> app \<Rightarrow> bool \<times> app" where
  "checkAIConfiguration pg r s =
     (let (aiConfig, s1) = loadAIConfig r s in
      case aiConfig of
        None \<Rightarrow> (False, showNotification pg ConfigCheckFailed Error False s1)
      | Some c \<Rightarrow>
          if blank (api_key c) then
            (False, setTimeout 2000 ClickSettingsTabLater
                      (showNotification pg MissingApiKey Error False s1))
          else if blank (detection_model c) then
            (False, setTimeout 2000 ClickSettingsTabLater
                      (showNotification pg MissingDetectionModel Error False s1))
          else (True, s1))"

text \<open>\<open>settings.whitelist && settings.whitelist.length > 0\<close>.\<close>

fun has_items :: "string list option \<Rightarrow> bool" where
  "has_items None = False"
| "has_items (Some xs) = (length xs > 0)"

text \<open>
  \<open>checkWhiteBlacklistConfiguration\<close>; \<open>confirmed\<close> is what the user answers to the
  \<open>confirm\<close> dialog. The \<open>catch\<close> block returns \<open>true\<close>: it is reached when the settings are
  \<open>null\<close>, and when the click on the settings tab throws because the tab is missing.
\<close>

definition checkWhiteBlacklistConfiguration ::
  "page \<Rightarrow> user_settings response \<Rightarrow> bool \<Rightarrow> app \<Rightarrow> bool \<times> app" where
  "checkWhiteBlacklistConfiguration pg r confirmed s =
     (let (settings, s1) = loadUserSettings r s in
      case settings of
        None \<Rightarrow> (True, s1)
      | Some u \<Rightarrow>
          let hasWhitelist = has_items (us_whitelist u);
              hasBlacklist = has_items (us_blacklist u)
          in if \<not> hasWhitelist \<and> \<not> hasBlacklist then
               (let s2 = showNotification pg ListReminder Warning False s1;
                    s3 = emit (Confirm ContinueWithoutLists) s2
                in if \<not> confirmed then
                     (if settings_tab pg then (False, emit ClickSettingsTab s3)
                      else (True, s3))
                   else (True, s3))
             else (True, s1))"

text \<open>
  \<open>testAPIConnectionForMonitoring\<close>; \<open>retry\<close> is the answer to its \<open>confirm\<close> dialog. The
  \<open>catch\<close> block is reached when the test result is \<open>null\<close>, and when the click on a
  missing settings tab throws.
\<close>

definition testAPIConnectionForMonitoring ::
  "page \<Rightarrow> ai_config response \<Rightarrow> test_result response \<Rightarrow> bool \<Rightarrow> app \<Rightarrow> bool \<times> app" where
  "testAPIConnectionForMonitoring pg r_ai r_test retry s =
     (let s1 = showNotification pg CheckingConnection Info False s;
          (aiConfig, s2) = loadAIConfig r_ai s1;
          (testResult, s3) = testAIAPI r_test s2
      in case testResult of
           None \<Rightarrow> (False, showNotification pg ConnectionTestException Error False s3)
         | Some t \<Rightarrow>
             if \<not> success t then
               (let s4 = showNotification pg (ApiConnectionFailed (message t)) Error False s3;
                    s5 = emit (Confirm OpenSettingsAfterFailure) s4
                in if retry then
                     (if settings_tab pg then (False, emit ClickSettingsTab s5)
                      else (False, showNotification pg ConnectionTestException Error False s5))
                   else (False, s5))
             else (True, s3))"

text \<open>
  \<open>saveMonitoringConfigForStart\<close>: the result is \<open>False\<close> when it throws, which happens when
  the user settings are \<open>null\<close> (\<open>userSettings.whitelist\<close>). A rejected save does not throw.
\<close>

definition saveMonitoringConfigForStart ::
  "ai_config response \<Rightarrow> user_settings response \<Rightarrow> unit response \<Rightarrow> app \<Rightarrow> bool \<times> app" where
  "saveMonitoringConfigForStart r_ai r_us r_save s =
     (let (aiConfig, s1) = loadAIConfig r_ai s;
          (userSettings, s2) = loadUserSettings r_us s1
      in case userSettings of
           None \<Rightarrow> (False, s2)
         | Some u \<Rightarrow> (True, snd (safeInvoke SaveMonitoringConfig (\<lambda>m. ()) r_save s2)))"

text \<open>
  What the backend and the user answer during one call of \<open>toggleMonitoring\<close>, one field
  for each command and each dialog in program order.
\<close>

record env =
  stop_response :: "unit response"
  ai_config_response :: "ai_config response"
  user_settings_response :: "user_settings response"
  confirm_continue :: bool
  ai_config_response2 :: "ai_config response"
  test_response :: "test_result response"
  confirm_open_settings :: bool
  ai_config_response3 :: "ai_config response"
  user_settings_response2 :: "user_settings response"
  save_response :: "unit response"
  start_response :: "unit response"

text \<open>How the promise of an \<open>async\<close> function settles.\<close>

datatype completion = Fulfilled | Failed

text \<open>
  \<open>updateMonitoringButton\<close> restyles the button; it throws when the button is missing. The
  two functions below are the end of the \<open>try\<close> block and the \<open>catch\<close> block of
  \<open>toggleMonitoring\<close>.
\<close>

definition toggle_catch :: "page \<Rightarrow> app \<Rightarrow> completion \<times> app" where
  "toggle_catch pg s =
     (let s1 = showNotification pg OperationFailed Info False s;
          s2 = updateFocusStatus (PString ''idle'') (s1\<lparr> isMonitoring := False \<rparr>)
      in (if monitoring_toggle_btn pg then Fulfilled else Failed, s2))"

definition toggle_finish :: "page \<Rightarrow> app \<Rightarrow> completion \<times> app" where
  "toggle_finish pg s = (if monitoring_toggle_btn pg then (Fulfilled, s) else toggle_catch pg s)"

definition toggleMonitoring :: "page \<Rightarrow> env \<Rightarrow> app \<Rightarrow> completion \<times> app" where
  "toggleMonitoring pg e s =
     (if isMonitoring s then
        (let s1 = snd (safeInvoke StopMonitoring (\<lambda>m. ()) (stop_response e) s);
             s2 = updateFocusStatus (PString ''idle'') (s1\<lparr> isMonitoring := False \<rparr>);
             s3 = showNotification pg MonitoringStopped Info True s2
         in toggle_finish pg s3)
      else
        (let (aiConfigValid, s1) = checkAIConfiguration pg (ai_config_response e) s in
         if \<not> aiConfigValid then (Fulfilled, s1)
         else
           let (listConfigValid, s2) =
                 checkWhiteBlacklistConfiguration pg (user_settings_response e)
                   (confirm_continue e) s1 in
           if \<not> listConfigValid then (Fulfilled, s2)
           else
             let (apiConnected, s3) =
                   testAPIConnectionForMonitoring pg (ai_config_response2 e) (test_response e)
                     (confirm_open_settings e) s2 in
             if \<not> apiConnected then (Fulfilled, s3)
             else
               let (saved, s4) =
                     saveMonitoringConfigForStart (ai_config_response3 e)
                       (user_settings_response2 e) (save_response e) s3 in
               if \<not> saved then toggle_catch pg s4
               else
                 let s5 = snd (safeInvoke StartMonitoring (\<lambda>m. ()) (start_response e) s4);
                     s6 = updateFocusStatus (PString ''focused'') (s5\<lparr> isMonitoring := True \<rparr>);
                     s7 = showNotification pg MonitoringStarted Success True s6
                 in toggle_finish pg s7))"

subsection \<open>Task binding\<close>

text \<open>
  The selector \<open>[data-task-id="..."]\<close> is built by pasting the bound id between double
  quotes. For an id without a double quote, a backslash, a line break (LF, FF, CR) or NUL the
  quoted string is the id itself and the selector tests the attribute for equality. For an
  id with one of these characters the selector is another one or is not well formed; the
  model lets \<open>querySelector\<close> throw for all of them, as it does in the code for \<open>a"b\<close>. What
  depends on the outcome of the lookup is stated below for plain ids only.
\<close>

definition plain_id :: "string \<Rightarrow> bool" where
  "plain_id tid = list_all (\<lambda>c. of_char c \<notin> {0, 10, 12, 13, 34, 92 :: nat}) tid"

text \<open>
  \<open>updateCurrentTaskDisplay(taskText)\<close>. With a text and a bound task it first looks for the
  bound task in \<open>#task-list\<close> (\<open>querySelector\<close> yields the first match) and clears the binding
  and the stored selection if the task is missing or its checkbox is checked, which is the
  test \<open>!taskElement || (taskCheckbox && taskCheckbox.checked)\<close> in \<open>task_gone\<close>; then it
  writes the dashboard mirror \<open>#current-task-text\<close>. The result is \<open>None\<close> when
  \<open>querySelector\<close> throws, which happens before the function has changed anything.
\<close>

definition task_gone :: "string option \<Rightarrow> task_item list \<Rightarrow> bool" where
  "task_gone selected items =
     (case find (\<lambda>t. Some (task_id t) = selected) items of
        None \<Rightarrow> True
      | Some taskElement \<Rightarrow> checkbox taskElement = Some True)"

definition updateCurrentTaskDisplay :: "page \<Rightarrow> string option \<Rightarrow> app \<Rightarrow> app option" where
  "updateCurrentTaskDisplay pg taskText s =
     (if \<not> current_task_text_el pg then Some s
      else if truthy taskText \<and> truthy (currentSelectedTask s) \<and> task_list_el pg
              \<and> \<not> plain_id (the (currentSelectedTask s))
      then None
      else
        let (s1, taskText1) =
              (if truthy taskText \<and> truthy (currentSelectedTask s) \<and> task_list_el pg
                  \<and> task_gone (currentSelectedTask s) (task_list s)
               then (emit StorageRemove
                       (s\<lparr> currentSelectedTask := None, stored_task := None \<rparr>), None)
               else (s, taskText))
        in Some (s1\<lparr> current_task_text :=
                       (if truthy taskText1 then Shows (the taskText1) else NoTask) \<rparr>))"

text \<open>\<open>updateTimerCurrentTask(taskText)\<close> writes the timer-panel mirror \<open>#current-task-display\<close>.\<close>

definition updateTimerCurrentTask :: "page \<Rightarrow> string option \<Rightarrow> app \<Rightarrow> app" where
  "updateTimerCurrentTask pg taskText s =
     (if current_task_display_el pg then
        s\<lparr> current_task_display := (if truthy taskText then Shows (the taskText) else NoTask) \<rparr>
      else s)"

definition closeTaskSelector :: "page \<Rightarrow> app \<Rightarrow> app" where
  "closeTaskSelector pg s = (if task_selection_modal_el pg then s\<lparr> selector_hidden := True \<rparr> else s)"

text \<open>
  \<open>selectCurrentTask(taskId, taskText)\<close>. The flag and the binding are set before the \<open>try\<close>
  block does anything else. The \<open>catch\<close> block is reached when \<open>querySelector\<close> throws inside
  \<open>updateCurrentTaskDisplay\<close> and when \<open>localStorage.setItem\<close> throws; it shows the failure
  notification and what the \<open>try\<close> block had not yet done stays undone. The \<open>finally\<close> block
  registers the timer that resets the flag after 500 ms.
\<close>

definition selectCurrentTask :: "page \<Rightarrow> string \<Rightarrow> string \<Rightarrow> app \<Rightarrow> app" where
  "selectCurrentTask pg taskId taskText s =
     (if taskId = [] \<or> taskText = [] then s
      else if isProcessing s then s
      else
        let s1 = s\<lparr> isProcessing := True, currentSelectedTask := Some taskId \<rparr>;
            done =
              (case updateCurrentTaskDisplay pg (Some taskText) s1 of
                 None \<Rightarrow> showNotification pg SelectionFailed Info False s1
               | Some s2 \<Rightarrow>
                   if \<not> storage_writable pg
                   then showNotification pg SelectionFailed Info False s2
                   else
                     let s3 = emit (StorageSet taskId taskText)
                                (s2\<lparr> stored_task := Some (Task taskId taskText) \<rparr>);
                         s4 = updateTimerCurrentTask pg (Some taskText) s3;
                         s5 = closeTaskSelector pg s4
                     in showNotification pg (TaskSelected taskText) Info False s5)
        in setTimeout 500 ResetProcessing done)"

text \<open>
  \<open>clearCurrentTask\<close>. The checkbox handler of a task calls it when the task is checked and
  is the bound one (\<open>currentSelectedTask === task.id\<close>), \<open>deleteTask\<close> when the deleted task
  is the bound one. Its \<open>catch\<close> block shows the failure notification.
\<close>

definition clearCurrentTask :: "page \<Rightarrow> app \<Rightarrow> app" where
  "clearCurrentTask pg s =
     (let s0 = s\<lparr> currentSelectedTask := None \<rparr> in
      case updateCurrentTaskDisplay pg None s0 of
        None \<Rightarrow> showNotification pg ClearFailed Info False s0
      | Some s1 \<Rightarrow>
          let s2 = emit StorageRemove (s1\<lparr> stored_task := None \<rparr>);
              s3 = updateTimerCurrentTask pg None s2;
              s4 = closeTaskSelector pg s3
          in showNotification pg TaskCleared Info False s4)"

text \<open>
  \<open>loadCurrentTask\<close>. The binding is set to \<open>task.id\<close>, then the two mirrors are written
  from \<open>task.text\<close>; an exception (a stored value of which \<open>task.id\<close> cannot be read, a throwing
  \<open>querySelector\<close>) is caught and logged, and what was assigned before it stays.
\<close>

definition load_fields :: "page \<Rightarrow> string option \<Rightarrow> string option \<Rightarrow> app \<Rightarrow> app" where
  "load_fields pg tid text s =
     (let s1 = s\<lparr> currentSelectedTask := tid \<rparr> in
      case updateCurrentTaskDisplay pg text s1 of
        None \<Rightarrow> s1
      | Some s2 \<Rightarrow> updateTimerCurrentTask pg text s2)"

definition loadCurrentTask :: "page \<Rightarrow> app \<Rightarrow> app" where
  "loadCurrentTask pg s =
     (case stored_task s of
        None \<Rightarrow> s
      | Some Unparsable \<Rightarrow> s
      | Some (Task tid text) \<Rightarrow> load_fields pg (Some tid) (Some text) s
      | Some (Incomplete tid text) \<Rightarrow> load_fields pg tid text s)"

subsection \<open>Interventions\<close>

text \<open>The payload of a \<open>distraction_intervention\<close> event.\<close>

record intervention_event =
  event_type :: string
  event_message :: string
  urgent :: bool
  duration_seconds :: "int option"
  sound_enabled :: bool

text \<open>
  The title, the type and the flag \<open>showSystemNotif\<close> that \<open>showDistractionIntervention\<close>
  chooses: the test on the type comes first.
\<close>

definition intervention_style :: "intervention_event \<Rightarrow> notice \<times> level \<times> bool" where
  "intervention_style p =
     (if event_type p = ''encouragement'' then (EncouragementNotice, Success, False)
      else if urgent p then (SevereWarningNotice, Error, True)
      else (FocusReminderNotice, Warning, True))"

text \<open>
  \<open>setTimeout\<close> converts its delay to a signed 32-bit integer, modulo \<open>2 ^ 32\<close>, and treats a
  negative delay as zero.
\<close>

definition timeout_delay :: "int \<Rightarrow> nat" where
  "timeout_delay ms =
     (let m = ms mod 2 ^ 32; signed = (if m \<ge> 2 ^ 31 then m - 2 ^ 32 else m)
      in if signed < 0 then 0 else nat signed)"

text \<open>\<open>(duration_seconds || 10) * 1000\<close> as a delay: zero is falsy.\<close>

fun auto_close_delay :: "int option \<Rightarrow> nat" where
  "auto_close_delay None = timeout_delay (10 * 1000)"
| "auto_close_delay (Some d) = (if d = 0 then timeout_delay (10 * 1000) else timeout_delay (d * 1000))"

text \<open>
  \<open>showDistractionIntervention\<close>: the notification, then the first element with the id
  \<open>distraction-modal\<close> is removed and the new one appended to the body, then the sound, then
  the timer that calls \<open>dismissDistractionModal\<close>.
\<close>

definition showDistractionIntervention :: "page \<Rightarrow> intervention_event \<Rightarrow> app \<Rightarrow> app" where
  "showDistractionIntervention pg p s =
     (let (title, notificationType, showSystemNotif) = intervention_style p;
          s1 = showNotification pg title notificationType showSystemNotif s;
          s2 = s1\<lparr> distraction_modals :=
                     tl (distraction_modals s1) @
                       [\<lparr> mid = next_mid s1, modal_type = event_type p, modal_urgent = urgent p,
                          announced_seconds = duration_seconds p, fading = False \<rparr>],
                   next_mid := next_mid s1 + 1 \<rparr>;
          s3 = (if sound_enabled p then emit (Sound (if urgent p then 800 else 600)) s2 else s2)
      in setTimeout (auto_close_delay (duration_seconds p)) DismissModal s3)"

text \<open>
  \<open>dismissDistractionModal\<close> looks the element up by its id when it runs, marks it and
  removes that element 300 ms later.
\<close>

definition dismissDistractionModal :: "app \<Rightarrow> app" where
  "dismissDistractionModal s =
     (case distraction_modals s of
        [] \<Rightarrow> s
      | m # ms \<Rightarrow>
          setTimeout 300 (RemoveModal (mid m))
            (s\<lparr> distraction_modals := m\<lparr> fading := True \<rparr> # ms \<rparr>))"

subsection \<open>Timers\<close>

text \<open>What a timer callback does when it runs.\<close>

fun fire :: "page \<Rightarrow> timer_action \<Rightarrow> app \<Rightarrow> app" where
  "fire pg ClickSettingsTabLater s = (if settings_tab pg then emit ClickSettingsTab s else s)"
| "fire pg ResetProcessing s = s\<lparr> isProcessing := False \<rparr>"
| "fire pg DismissModal s = dismissDistractionModal s"
| "fire pg (RemoveModal k) s =
     s\<lparr> distraction_modals := filter (\<lambda>m. mid m \<noteq> k) (distraction_modals s) \<rparr>"

text \<open>
  The pending timer that runs next if the clock is advanced to \<open>t\<close>: the one due earliest
  among those due by \<open>t\<close>, the one registered first among equals.
\<close>

fun next_due :: "nat \<Rightarrow> (nat \<times> timer_action) list \<Rightarrow> (nat \<times> timer_action) option" where
  "next_due t [] = None"
| "next_due t (x # xs) =
     (if fst x \<le> t then
        (case next_due t xs of
           None \<Rightarrow> Some x
         | Some y \<Rightarrow> if fst y < fst x then Some y else Some x)
      else next_due t xs)"

text \<open>
  For the termination of the event loop: a pending dismissal may register one removal, the
  other callbacks register nothing.
\<close>

fun weight :: "nat \<times> timer_action \<Rightarrow> nat" where
  "weight (d, DismissModal) = 2"
| "weight (d, a) = 1"

lemma next_due_mem: "next_due t ts = Some x \<Longrightarrow> x \<in> set ts \<and> fst x \<le> t"
  by (induction ts arbitrary: x) (auto split: if_splits option.splits)

lemma sum_weight_remove1:
  "x \<in> set ts \<Longrightarrow> sum_list (map weight (remove1 x ts)) + weight x = sum_list (map weight ts)"
  by (induction ts) auto

lemma fire_weight:
  "sum_list (map weight (timers (fire pg a (s\<lparr> timers := ts, now := n \<rparr>)))) + 1
     \<le> sum_list (map weight ts) + weight (d, a)"
  by (cases a) (simp_all add: dismissDistractionModal_def setTimeout_def emit_def split: list.splits)

text \<open>
  The event loop up to time \<open>t\<close>: as long as a timer is due by \<open>t\<close>, the next one is taken
  from the pending timers, the clock is set to its due time and its callback runs; then
  the clock is set to \<open>t\<close>.
\<close>

function run_until :: "page \<Rightarrow> nat \<Rightarrow> app \<Rightarrow> app" where
  "run_until pg t s =
     (case next_due t (timers s) of
        None \<Rightarrow> s\<lparr> now := max (now s) t \<rparr>
      | Some (d, a) \<Rightarrow>
          run_until pg t
            (fire pg a (s\<lparr> timers := remove1 (d, a) (timers s), now := max (now s) d \<rparr>)))"
  by pat_completeness auto
termination
proof (relation "measure (\<lambda>(pg, t, s). sum_list (map weight (timers s)))", goal_cases)
  case 1
  show ?case by simp
next
  case (2 pg t s x d a)
  then have "(d, a) \<in> set (timers s)"
    using next_due_mem [of t "timers s" "(d, a)"] by simp
  then have "sum_list (map weight (remove1 (d, a) (timers s))) + weight (d, a)
      = sum_list (map weight (timers s))"
    by (rule sum_weight_remove1)
  moreover have "sum_list (map weight (timers (fire pg a
       (s\<lparr> timers := remove1 (d, a) (timers s), now := max (now s) d \<rparr>)))) + 1
     \<le> sum_list (map weight (remove1 (d, a) (timers s))) + weight (d, a)"
    by (rule fire_weight)
  ultimately show ?case by simp
qed

declare run_until.simps [simp del]

text \<open>
  The commands of a start attempt that passes every check, in program order: the
  credential check loads the AI configuration, the list check loads the user settings, the
  connectivity check loads the AI configuration and tests the API; then the monitoring
  configuration is assembled and saved and monitoring is started.
\<close>

definition gate_order :: "command list" where
  "gate_order =
     [LoadAIConfig, LoadUserSettings, LoadAIConfig, TestAIAPI,
      LoadAIConfig, LoadUserSettings, SaveMonitoringConfig, StartMonitoring]"

subsection \<open>Classification results\<close>

text \<open>
  The four focus states, with their names as keys of \<open>statusConfig\<close> (the values of
  \<open>currentFocusState\<close>) and as keys of \<open>focusStateMap\<close> (the values of \<open>focus_state\<close> in the
  result of a manual check, where \<open>Unknown\<close> stands for idle).
\<close>

datatype focus = Idle | Focused | Distracted | SeverelyDistracted

fun status_key :: "focus \<Rightarrow> string" where
  "status_key Idle = ''idle''"
| "status_key Focused = ''focused''"
| "status_key Distracted = ''distracted''"
| "status_key SeverelyDistracted = ''severely_distracted''"

fun backend_name :: "focus \<Rightarrow> string" where
  "backend_name Idle = ''Unknown''"
| "backend_name Focused = ''Focused''"
| "backend_name Distracted = ''Distracted''"
| "backend_name SeverelyDistracted = ''SeverelyDistracted''"

record classification =
  cl_state :: focus
  cl_confidence :: "real option"
  cl_application :: "string option"

text \<open>
  A classification result reaches the page either as the payload of a
  \<open>focus_state_changed\<close> event, handled by \<open>updateFocusStatus\<close>, or as the result of a manual
  check, handled by \<open>updateDashboardFocusState\<close>.
\<close>

datatype channel = Pushed | Manual

fun apply_result :: "app \<Rightarrow> channel \<times> classification \<Rightarrow> app" where
  "apply_result s (Pushed, c) =
     updateFocusStatus
       (PObject \<lparr> state = Some (status_key (cl_state c)), confidence = cl_confidence c,
                  application_name = cl_application c \<rparr>) s"
| "apply_result s (Manual, c) =
     updateDashboardFocusState
       \<lparr> focus_state = Some (backend_name (cl_state c)), result_confidence = cl_confidence c,
         result_application_name = cl_application c \<rparr> s"

subsection \<open>Sample inputs\<close>

definition full_page :: page where
  "full_page =
     \<lparr> settings_tab = True, monitoring_toggle_btn = True, manual_check_btn = True,
       current_task_text_el = True, current_task_display_el = True, task_list_el = True,
       task_selection_modal_el = True, notification_api = True, storage_writable = True \<rparr>"

definition initial_app :: app where
  "initial_app =
     \<lparr> isMonitoring = False, currentFocusState = ''idle'', currentSelectedTask = None,
       isProcessing = False, stored_task = None, task_list = [],
       current_task_text = NoTask, current_task_display = NoTask, selector_hidden = True,
       distraction_modals = [], next_mid = 0, notification_permission = Denied,
       now = 0, timers = [], effects = [] \<rparr>"

definition good_config :: ai_config where
  "good_config = \<lparr> api_key = Some ''sk-test'', detection_model = Some ''gpt-4o-mini'' \<rparr>"

definition good_settings :: user_settings where
  "good_settings = \<lparr> us_whitelist = Some [''code.exe''], us_blacklist = Some [] \<rparr>"

definition empty_settings :: user_settings where
  "empty_settings = \<lparr> us_whitelist = Some [], us_blacklist = Some [] \<rparr>"

definition good_env :: env where
  "good_env =
     \<lparr> stop_response = Value (),
       ai_config_response = Value good_config,
       user_settings_response = Value good_settings,
       confirm_continue = True,
       ai_config_response2 = Value good_config,
       test_response = Value \<lparr> success = True, message = ''ok'' \<rparr>,
       confirm_open_settings = False,
       ai_config_response3 = Value good_config,
       user_settings_response2 = Value good_settings,
       save_response = Value (),
       start_response = Value () \<rparr>"

definition blank_key_env :: env where
  "blank_key_env =
     good_env\<lparr> ai_config_response :=
       Value \<lparr> api_key = Some [CHR '' '', CHR 0x09], detection_model = Some ''gpt-4o-mini'' \<rparr> \<rparr>"

definition declining_env :: env where
  "declining_env =
     good_env\<lparr> user_settings_response := Value empty_settings, confirm_continue := False \<rparr>"

definition confirming_env :: env where
  "confirming_env = good_env\<lparr> user_settings_response := Value empty_settings \<rparr>"

definition monitoring_app :: app where
  "monitoring_app = initial_app\<lparr> isMonitoring := True, currentFocusState := ''focused'' \<rparr>"

definition unknown_result :: check_result where
  "unknown_result =
     \<lparr> focus_state = Some ''Unknown'', result_confidence = Some (9 / 10),
       result_application_name = Some ''explorer.exe'' \<rparr>"

definition checked_app :: app where
  "checked_app = initial_app\<lparr> currentFocusState := ''focused'' \<rparr>"

definition focused_result :: classification where
  "focused_result =
     \<lparr> cl_state = Focused, cl_confidence = Some (1 / 10), cl_application = None \<rparr>"

definition light_warning :: intervention_event where
  "light_warning =
     \<lparr> event_type = ''light_distraction'', event_message = ''back to work'', urgent = False,
       duration_seconds = Some 10, sound_enabled = False \<rparr>"

definition encouragement :: intervention_event where
  "encouragement =
     \<lparr> event_type = ''encouragement'', event_message = ''well done'', urgent = False,
       duration_seconds = Some 30, sound_enabled = False \<rparr>"

definition urgent_encouragement :: intervention_event where
  "urgent_encouragement = encouragement\<lparr> urgent := True \<rparr>"

definition granted_app :: app where
  "granted_app = initial_app\<lparr> notification_permission := Granted \<rparr>"

text \<open>
  A warning shown for ten seconds is delivered at time 0; nine seconds later an
  encouragement shown for thirty seconds is delivered.
\<close>

definition first_delivered :: app where
  "first_delivered = showDistractionIntervention full_page light_warning initial_app"

definition second_delivered :: app where
  "second_delivered =
     showDistractionIntervention full_page encouragement (run_until full_page 9000 first_delivered)"

text \<open>A stored selection whose task is completed in the list, and one whose task is not listed.\<close>

definition completed_task_app :: app where
  "completed_task_app =
     initial_app\<lparr> stored_task := Some (Task ''t1'' ''Write report''),
                   task_list := [\<lparr> task_id = ''t1'', task_label = ''Write report'',
                                    checkbox = Some True \<rparr>] \<rparr>"

definition unlisted_task_app :: app where
  "unlisted_task_app = initial_app\<lparr> stored_task := Some (Task ''t1'' ''Write report'') \<rparr>"

definition open_task_app :: app where
  "open_task_app =
     initial_app\<lparr> task_list := [\<lparr> task_id = ''t1'', task_label = ''Write report'',
                                    checkbox = Some False \<rparr>],
                   selector_hidden := False \<rparr>"

text \<open>The id \<open>a"b\<close>.\<close>

definition quoted_id :: string where
  "quoted_id = [CHR ''a'', CHR 0x22, CHR ''b'']"

section \<open>Properties\<close>

subsection \<open>Persisted intervention switches\<close>

lemma checked_or_True: "checked_or c True"
  by (cases c) auto

lemma intervention_flags_True:
  "intervention_flags (intervention_of_form f) = [True, True, True, True, True]"
  by (simp add: intervention_flags_def intervention_of_form_def checked_or_True)

text \<open>
  Claim C10. Whatever the settings form holds, each of the three builders (\<open>saveSettings\<close>,
  \<open>autoSaveUserSettings\<close>, \<open>saveTheme\<close>) writes \<open>true\<close> into all five boolean fields of
  \<open>distraction_intervention\<close>, since \<open>?.checked || true\<close> is true also for an unchecked box;
  so two forms that differ only in these five checkboxes persist the same switches.
\<close>

theorem intervention_switches_always_true:
  "intervention_flags (intervention (saveSettings f)) = [True, True, True, True, True]
   \<and> intervention_flags (intervention (autoSaveUserSettings f)) = [True, True, True, True, True]
   \<and> intervention_flags (intervention (saveTheme th f)) = [True, True, True, True, True]
   \<and> saveSettings
        (f\<lparr> distraction_intervention_enabled_cb := Some False,
            light_distraction_notification_cb := Some False,
            severe_distraction_popup_cb := Some False,
            encouragement_enabled_cb := Some False,
            intervention_sound_cb := Some False \<rparr>)
      = saveSettings
        (f\<lparr> distraction_intervention_enabled_cb := Some True,
            light_distraction_notification_cb := Some True,
            severe_distraction_popup_cb := Some True,
            encouragement_enabled_cb := Some True,
            intervention_sound_cb := Some True \<rparr>)"
proof -
  have flags: "intervention_flags (intervention_of_form g) = [True, True, True, True, True]" for g
    by (rule intervention_flags_True)
  have same: "intervention_of_form (g\<lparr> distraction_intervention_enabled_cb := a,
      light_distraction_notification_cb := b, severe_distraction_popup_cb := c,
      encouragement_enabled_cb := d, intervention_sound_cb := e \<rparr>) = intervention_of_form g"
    for g a b c d e
    by (simp add: intervention_of_form_def checked_or_True)
  show ?thesis
    by (simp add: saveSettings_def autoSaveUserSettings_def saveTheme_def flags same)
qed

subsection \<open>How the state fields evolve\<close>

lemma invocations_emit [simp]:
  "invocations (emit e s) = invocations s @ (case e of Invoke c \<Rightarrow> [c] | _ \<Rightarrow> [])"
  by (simp add: invocations_def emit_def)

lemma invocations_update [simp]:
  "invocations (isMonitoring_update f s) = invocations s"
  "invocations (currentFocusState_update g s) = invocations s"
  by (simp_all add: invocations_def)

lemma emit_fields [simp]:
  "isMonitoring (emit e s) = isMonitoring s"
  "currentFocusState (emit e s) = currentFocusState s"
  "notification_permission (emit e s) = notification_permission s"
  "effects (emit e s) = effects s @ [e]"
  by (simp_all add: emit_def)

lemma setTimeout_fields [simp]:
  "isMonitoring (setTimeout d a s) = isMonitoring s"
  "currentFocusState (setTimeout d a s) = currentFocusState s"
  "invocations (setTimeout d a s) = invocations s"
  "effects (setTimeout d a s) = effects s"
  by (simp_all add: setTimeout_def invocations_def)

lemma showNotification_fields [simp]:
  "isMonitoring (showNotification pg n lv b s) = isMonitoring s"
  "currentFocusState (showNotification pg n lv b s) = currentFocusState s"
  "invocations (showNotification pg n lv b s) = invocations s"
  by (simp_all add: showNotification_def Let_def)

lemma safeInvoke_fields [simp]:
  "isMonitoring (snd (safeInvoke c err r s)) = isMonitoring s"
  "currentFocusState (snd (safeInvoke c err r s)) = currentFocusState s"
  "invocations (snd (safeInvoke c err r s)) = invocations s @ [c]"
  by (simp_all add: safeInvoke_def Let_def split: response.splits)

lemma updateFocusStatus_fields [simp]:
  "isMonitoring (updateFocusStatus p s) = isMonitoring s"
  "invocations (updateFocusStatus p s) = invocations s"
  by (cases p; simp)+

lemma checkAIConfiguration_fields [simp]:
  "isMonitoring (snd (checkAIConfiguration pg r s)) = isMonitoring s"
  "currentFocusState (snd (checkAIConfiguration pg r s)) = currentFocusState s"
  "invocations (snd (checkAIConfiguration pg r s)) = invocations s @ [LoadAIConfig]"
  by (simp_all add: checkAIConfiguration_def loadAIConfig_def split_beta Let_def split: option.splits)

lemma checkWhiteBlacklistConfiguration_fields [simp]:
  "isMonitoring (snd (checkWhiteBlacklistConfiguration pg r c s)) = isMonitoring s"
  "currentFocusState (snd (checkWhiteBlacklistConfiguration pg r c s)) = currentFocusState s"
  "invocations (snd (checkWhiteBlacklistConfiguration pg r c s)) = invocations s @ [LoadUserSettings]"
  by (simp_all add: checkWhiteBlacklistConfiguration_def loadUserSettings_def split_beta Let_def
      split: option.splits)

lemma testAPIConnectionForMonitoring_fields [simp]:
  "isMonitoring (snd (testAPIConnectionForMonitoring pg r t c s)) = isMonitoring s"
  "currentFocusState (snd (testAPIConnectionForMonitoring pg r t c s)) = currentFocusState s"
  "invocations (snd (testAPIConnectionForMonitoring pg r t c s)) = invocations s @ [LoadAIConfig, TestAIAPI]"
  by (simp_all add: testAPIConnectionForMonitoring_def loadAIConfig_def testAIAPI_def split_beta Let_def
      split: option.splits)

lemma saveMonitoringConfigForStart_fields [simp]:
  "isMonitoring (snd (saveMonitoringConfigForStart r u v s)) = isMonitoring s"
  "currentFocusState (snd (saveMonitoringConfigForStart r u v s)) = currentFocusState s"
  "invocations (snd (saveMonitoringConfigForStart r u v s)) =
     invocations s @ [LoadAIConfig, LoadUserSettings] @
       (if fst (saveMonitoringConfigForStart r u v s) then [SaveMonitoringConfig] else [])"
  by (simp_all add: saveMonitoringConfigForStart_def loadAIConfig_def loadUserSettings_def split_beta Let_def
      split: option.splits)

lemma toggle_catch_fields [simp]:
  "isMonitoring (snd (toggle_catch pg s)) = False"
  "currentFocusState (snd (toggle_catch pg s)) = ''idle''"
  "invocations (snd (toggle_catch pg s)) = invocations s"
  by (simp_all add: toggle_catch_def Let_def)

lemma toggle_finish_fields [simp]:
  "isMonitoring (snd (toggle_finish pg s)) = (isMonitoring s \<and> monitoring_toggle_btn pg)"
  "invocations (snd (toggle_finish pg s)) = invocations s"
  by (simp_all add: toggle_finish_def)

lemma stop_resets:
  "isMonitoring s \<Longrightarrow> currentFocusState (snd (toggleMonitoring pg e s)) = ''idle''
     \<and> \<not> isMonitoring (snd (toggleMonitoring pg e s))"
  by (simp add: toggleMonitoring_def Let_def toggle_finish_def)

subsection \<open>Order of the checks before a start\<close>

text \<open>
  Claim C1. In a start attempt (\<open>toggleMonitoring\<close> while not monitoring) the commands issued
  are always an initial part of \<open>gate_order\<close>, beginning with the credential check; the list
  check runs exactly when the credential check passed, the connectivity check exactly when
  both passed, and monitoring is started (the command issued, the flag set) only when all
  three passed.
\<close>

theorem gate_checks_in_order:
  fixes pg e s
  assumes "\<not> isMonitoring s"
  defines "r1 \<equiv> checkAIConfiguration pg (ai_config_response e) s"
  defines "r2 \<equiv> checkWhiteBlacklistConfiguration pg (user_settings_response e)
                   (confirm_continue e) (snd r1)"
  defines "r3 \<equiv> testAPIConnectionForMonitoring pg (ai_config_response2 e) (test_response e)
                   (confirm_open_settings e) (snd r2)"
  defines "s' \<equiv> snd (toggleMonitoring pg e s)"
  shows "\<exists>issued. invocations s' = invocations s @ issued
           \<and> prefix issued gate_order
           \<and> take 1 issued = [LoadAIConfig]
           \<and> (LoadUserSettings \<in> set issued \<longleftrightarrow> fst r1)
           \<and> (TestAIAPI \<in> set issued \<longleftrightarrow> fst r1 \<and> fst r2)
           \<and> (StartMonitoring \<in> set issued \<longrightarrow> fst r1 \<and> fst r2 \<and> fst r3)
           \<and> (isMonitoring s' \<longrightarrow> fst r1 \<and> fst r2 \<and> fst r3)"
  using assms(1) unfolding r1_def r2_def r3_def s'_def
  by (simp add: toggleMonitoring_def split_beta Let_def gate_order_def)

text \<open>With a valid configuration and a reachable API every check passes.\<close>

lemmas start_defs =
  toggleMonitoring_def checkAIConfiguration_def checkWhiteBlacklistConfiguration_def
  testAPIConnectionForMonitoring_def saveMonitoringConfigForStart_def toggle_finish_def
  toggle_catch_def loadAIConfig_def loadUserSettings_def testAIAPI_def safeInvoke_def
  showNotification_def setTimeout_def emit_def Let_def trim_def js_whitespace_def

lemma good_env_starts:
  "isMonitoring (snd (toggleMonitoring full_page good_env initial_app))"
  "invocations (snd (toggleMonitoring full_page good_env initial_app)) = gate_order"
  "invocations initial_app = []"
  by (simp_all add: start_defs invocations_def gate_order_def good_env_def good_config_def
      good_settings_def full_page_def initial_app_def)

theorem gate_checks_in_order_witness:
  "\<not> isMonitoring initial_app
   \<and> isMonitoring (snd (toggleMonitoring full_page good_env initial_app))
   \<and> (\<exists>issued. invocations (snd (toggleMonitoring full_page good_env initial_app))
                   = invocations initial_app @ issued
          \<and> prefix issued gate_order
          \<and> LoadUserSettings \<in> set issued
          \<and> TestAIAPI \<in> set issued
          \<and> StartMonitoring \<in> set issued)"
proof -
  have h: "\<not> isMonitoring initial_app" by (simp add: initial_app_def)
  from gate_checks_in_order [OF h, of full_page good_env]
  obtain issued where i: "invocations (snd (toggleMonitoring full_page good_env initial_app))
                   = invocations initial_app @ issued" and p: "prefix issued gate_order"
    by blast
  from i have "issued = gate_order" by (simp add: good_env_starts)
  then have "LoadUserSettings \<in> set issued \<and> TestAIAPI \<in> set issued \<and> StartMonitoring \<in> set issued"
    by (simp add: gate_order_def)
  with h i p good_env_starts(1) show ?thesis by blast
qed

subsection \<open>Blank API key\<close>

lemma all_dropWhile_iff: "(\<forall>x\<in>set (dropWhile P k). P x) \<longleftrightarrow> (\<forall>x\<in>set k. P x)"
proof
  assume a: "\<forall>x\<in>set (dropWhile P k). P x"
  have "dropWhile P k = []"
  proof (rule ccontr)
    assume n: "dropWhile P k \<noteq> []"
    then have "\<not> P (hd (dropWhile P k))" by (rule hd_dropWhile)
    moreover have "hd (dropWhile P k) \<in> set (dropWhile P k)" using n by simp
    ultimately show False using a by blast
  qed
  then show "\<forall>x\<in>set k. P x" by (simp add: dropWhile_eq_Nil_conv)
next
  assume "\<forall>x\<in>set k. P x"
  then show "\<forall>x\<in>set (dropWhile P k). P x" by (auto dest: set_dropWhileD)
qed

lemma trim_empty_iff: "trim k = [] \<longleftrightarrow> (\<forall>c\<in>set k. js_whitespace c)"
proof -
  have "trim k = [] \<longleftrightarrow> (\<forall>x\<in>set (rev (dropWhile js_whitespace k)). js_whitespace x)"
    by (simp add: trim_def dropWhile_eq_Nil_conv)
  also have "\<dots> \<longleftrightarrow> (\<forall>x\<in>set k. js_whitespace x)"
    by (simp add: all_dropWhile_iff)
  finally show ?thesis .
qed

lemma blank_iff: "blank (Some k) \<longleftrightarrow> (\<forall>c\<in>set k. js_whitespace c)"
  by (auto simp: trim_empty_iff)

text \<open>
  Claim C2. If monitoring is off and the loaded AI configuration has an API key made of
  white space only (or empty), a start attempt ends after the credential check: it raises
  the missing-API-key notification, issues no further command, leaves \<open>isMonitoring\<close> false
  and leaves the focus state as it was, so an idle state stays idle.
\<close>

theorem blank_api_key_blocks_start:
  assumes "\<not> isMonitoring s"
    and "ai_config_response e = Value c"
    and "api_key c = Some k"
    and "\<forall>ch\<in>set k. js_whitespace ch"
  shows "toggleMonitoring pg e s =
           (Fulfilled, setTimeout 2000 ClickSettingsTabLater
              (showNotification pg MissingApiKey Error False (emit (Invoke LoadAIConfig) s)))
         \<and> \<not> isMonitoring (snd (toggleMonitoring pg e s))
         \<and> currentFocusState (snd (toggleMonitoring pg e s)) = currentFocusState s
         \<and> invocations (snd (toggleMonitoring pg e s)) = invocations s @ [LoadAIConfig]
         \<and> effects (snd (toggleMonitoring pg e s)) =
             effects s @ [Invoke LoadAIConfig, InPage MissingApiKey Error]"
proof -
  have b: "blank (api_key c)"
    using assms(3,4) by (simp only: blank_iff)
  have chk: "checkAIConfiguration pg (ai_config_response e) s =
      (False, setTimeout 2000 ClickSettingsTabLater
              (showNotification pg MissingApiKey Error False (emit (Invoke LoadAIConfig) s)))"
    using b by (simp add: checkAIConfiguration_def loadAIConfig_def safeInvoke_def assms(2) Let_def)
  have tg: "toggleMonitoring pg e s =
           (Fulfilled, setTimeout 2000 ClickSettingsTabLater
              (showNotification pg MissingApiKey Error False (emit (Invoke LoadAIConfig) s)))"
    using assms(1) by (simp add: toggleMonitoring_def chk)
  show ?thesis
    using assms(1) by (simp add: tg) (simp add: showNotification_def Let_def)
qed

theorem blank_api_key_blocks_start_witness:
  "\<not> isMonitoring initial_app
   \<and> currentFocusState initial_app = ''idle''
   \<and> \<not> isMonitoring (snd (toggleMonitoring full_page blank_key_env initial_app))
   \<and> currentFocusState (snd (toggleMonitoring full_page blank_key_env initial_app)) = ''idle''
   \<and> effects (snd (toggleMonitoring full_page blank_key_env initial_app))
       = [Invoke LoadAIConfig, InPage MissingApiKey Error]"
proof -
  have h1: "\<not> isMonitoring initial_app" by (simp add: initial_app_def)
  have h2: "ai_config_response blank_key_env =
      Value \<lparr> api_key = Some [CHR '' '', CHR 0x09], detection_model = Some ''gpt-4o-mini'' \<rparr>"
    by (simp add: blank_key_env_def)
  have h3: "api_key \<lparr> api_key = Some [CHR '' '', CHR 0x09], detection_model = Some ''gpt-4o-mini'' \<rparr>
      = Some [CHR '' '', CHR 0x09]" by simp
  have h4: "\<forall>ch\<in>set [CHR '' '', CHR 0x09]. js_whitespace ch"
    by (simp add: js_whitespace_def)
  have h5: "currentFocusState initial_app = ''idle''" and h6: "effects initial_app = []"
    by (simp_all add: initial_app_def)
  note f = blank_api_key_blocks_start [OF h1 h2 h3 h4, of full_page]
  from f have c2: "\<not> isMonitoring (snd (toggleMonitoring full_page blank_key_env initial_app))"
    and c3: "currentFocusState (snd (toggleMonitoring full_page blank_key_env initial_app))
               = currentFocusState initial_app"
    and c5: "effects (snd (toggleMonitoring full_page blank_key_env initial_app))
               = effects initial_app @ [Invoke LoadAIConfig, InPage MissingApiKey Error]"
    by blast+
  show ?thesis
    using h1 h5 h6 c2 c3 c5 by simp
qed

subsection \<open>Focus state\<close>

text \<open>
  Claim C4. After any sequence of classification results has been applied, whichever way
  each arrived (event payload or manual check) and whatever its confidence, the current focus
  state is the state of the most recent result; neither the state before nor the earlier
  results matter.
\<close>

theorem focus_state_follows_last_result:
  "currentFocusState (foldl apply_result s (rs @ [(ch, c)])) = status_key (cl_state c)"
  by (cases ch; cases "cl_state c") (simp_all add: updateDashboardFocusState_def)

text \<open>The same holds for any payload object whose \<open>state\<close> is a non-empty string.\<close>

lemma updateFocusStatus_object:
  "state p = Some n \<Longrightarrow> n \<noteq> [] \<Longrightarrow> currentFocusState (updateFocusStatus (PObject p) s) = n"
  by simp

lemma apply_result_idle_iff:
  "currentFocusState (apply_result s (ch, c)) = ''idle'' \<longleftrightarrow> cl_state c = Idle"
  by (cases ch; cases "cl_state c") (simp_all add: updateDashboardFocusState_def)

lemma failed_check_keeps_focus_state:
  assumes "\<not> isMonitoring s"
    and "\<not> (fst (checkAIConfiguration pg (ai_config_response e) s)
          \<and> fst (checkWhiteBlacklistConfiguration pg (user_settings_response e)
                   (confirm_continue e) (snd (checkAIConfiguration pg (ai_config_response e) s)))
          \<and> fst (testAPIConnectionForMonitoring pg (ai_config_response2 e) (test_response e)
                   (confirm_open_settings e)
                   (snd (checkWhiteBlacklistConfiguration pg (user_settings_response e)
                      (confirm_continue e) (snd (checkAIConfiguration pg (ai_config_response e) s))))))"
  shows "currentFocusState (snd (toggleMonitoring pg e s)) = currentFocusState s
         \<and> \<not> isMonitoring (snd (toggleMonitoring pg e s))"
  using assms by (auto simp add: toggleMonitoring_def split_beta Let_def)

text \<open>
  A manual check whose command is rejected comes back as the error object and is applied
  like a result without \<open>focus_state\<close>.
\<close>

lemma rejected_manual_check_goes_idle:
  "manual_check_btn pg \<Longrightarrow>
   currentFocusState (triggerManualCheck pg (Rejected m) s) = ''idle''"
  by (simp add: triggerManualCheck_def safeInvoke_def updateDashboardFocusState_def Let_def)

subsection \<open>Empty whitelist and blacklist\<close>

text \<open>
  Claim C3. Take a start attempt whose credential check passed and whose user settings
  were loaded, on a page that has the settings tab. If both lists are empty the \<open>confirm\<close>
  dialog is shown: when the user confirms, the list check passes and the attempt goes on to
  the connectivity check; when the user declines, the settings tab is clicked, the attempt
  ends there and monitoring is not started. If a list has an item, the list check passes
  with no reminder and no dialog.
\<close>

theorem empty_lists_soft_confirmation:
  fixes pg e s u
  assumes "\<not> isMonitoring s" and "settings_tab pg"
    and "fst (checkAIConfiguration pg (ai_config_response e) s)"
    and "user_settings_response e = Value u"
  defines "s1 \<equiv> snd (checkAIConfiguration pg (ai_config_response e) s)"
  defines "asked \<equiv> emit (Confirm ContinueWithoutLists)
                     (showNotification pg ListReminder Warning False
                        (emit (Invoke LoadUserSettings) s1))"
  shows "(\<not> has_items (us_whitelist u) \<and> \<not> has_items (us_blacklist u) \<and> confirm_continue e \<longrightarrow>
            checkWhiteBlacklistConfiguration pg (user_settings_response e) (confirm_continue e) s1
              = (True, asked)
            \<and> prefix (invocations s @ [LoadAIConfig, LoadUserSettings, LoadAIConfig, TestAIAPI])
                (invocations (snd (toggleMonitoring pg e s))))
       \<and> (\<not> has_items (us_whitelist u) \<and> \<not> has_items (us_blacklist u) \<and> \<not> confirm_continue e \<longrightarrow>
            toggleMonitoring pg e s = (Fulfilled, emit ClickSettingsTab asked)
            \<and> \<not> isMonitoring (snd (toggleMonitoring pg e s))
            \<and> invocations (snd (toggleMonitoring pg e s))
                = invocations s @ [LoadAIConfig, LoadUserSettings])
       \<and> (has_items (us_whitelist u) \<or> has_items (us_blacklist u) \<longrightarrow>
            checkWhiteBlacklistConfiguration pg (user_settings_response e) (confirm_continue e) s1
              = (True, emit (Invoke LoadUserSettings) s1))"
proof -
  let ?chk = "checkWhiteBlacklistConfiguration pg (user_settings_response e) (confirm_continue e) s1"
  have confirmed: "?chk = (True, asked)"
    if "\<not> has_items (us_whitelist u)" "\<not> has_items (us_blacklist u)" "confirm_continue e"
    using that
    by (simp add: checkWhiteBlacklistConfiguration_def loadUserSettings_def safeInvoke_def
        assms(4) Let_def asked_def)
  have declined: "?chk = (False, emit ClickSettingsTab asked)"
    if "\<not> has_items (us_whitelist u)" "\<not> has_items (us_blacklist u)" "\<not> confirm_continue e"
    using that assms(2)
    by (simp add: checkWhiteBlacklistConfiguration_def loadUserSettings_def safeInvoke_def
        assms(4) Let_def asked_def)
  have configured: "?chk = (True, emit (Invoke LoadUserSettings) s1)"
    if "has_items (us_whitelist u) \<or> has_items (us_blacklist u)"
    using that
    by (auto simp add: checkWhiteBlacklistConfiguration_def loadUserSettings_def safeInvoke_def
        assms(4) Let_def)
  have proceeds: "prefix (invocations s @ [LoadAIConfig, LoadUserSettings, LoadAIConfig, TestAIAPI])
                (invocations (snd (toggleMonitoring pg e s)))"
    if c: "?chk = (True, asked)"
  proof -
    have "fst ?chk" using c by simp
    then show ?thesis
      using assms(1,3) unfolding s1_def
      by (simp add: toggleMonitoring_def split_beta Let_def)
  qed
  have stops: "toggleMonitoring pg e s = (Fulfilled, emit ClickSettingsTab asked)"
    if c: "?chk = (False, emit ClickSettingsTab asked)"
    using assms(1,3) c unfolding s1_def
    by (simp add: toggleMonitoring_def split_beta Let_def)
  have asked_fields: "isMonitoring asked = isMonitoring s"
    "invocations asked = invocations s @ [LoadAIConfig, LoadUserSettings]"
    by (simp_all add: asked_def s1_def)
  show ?thesis
    using confirmed declined configured proceeds stops assms(1) asked_fields
    by (auto simp del: has_items.simps)
qed

text \<open>The three cases: declined, confirmed, and a list that has an item.\<close>

lemma first_check_passes:
  "fst (checkAIConfiguration full_page (ai_config_response good_env) initial_app)"
  "fst (checkAIConfiguration full_page (ai_config_response declining_env) initial_app)"
  "fst (checkAIConfiguration full_page (ai_config_response confirming_env) initial_app)"
  by (simp_all add: checkAIConfiguration_def loadAIConfig_def safeInvoke_def declining_env_def
      confirming_env_def good_env_def good_config_def Let_def trim_def js_whitespace_def)

theorem empty_lists_soft_confirmation_witness:
  "\<not> isMonitoring initial_app \<and> settings_tab full_page
   \<and> \<not> has_items (us_whitelist empty_settings) \<and> \<not> has_items (us_blacklist empty_settings)
   \<and> \<not> confirm_continue declining_env
   \<and> \<not> isMonitoring (snd (toggleMonitoring full_page declining_env initial_app))
   \<and> invocations (snd (toggleMonitoring full_page declining_env initial_app))
       = [LoadAIConfig, LoadUserSettings]
   \<and> confirm_continue confirming_env
   \<and> prefix [LoadAIConfig, LoadUserSettings, LoadAIConfig, TestAIAPI]
        (invocations (snd (toggleMonitoring full_page confirming_env initial_app)))
   \<and> has_items (us_whitelist good_settings)
   \<and> checkWhiteBlacklistConfiguration full_page (user_settings_response good_env)
        (confirm_continue good_env)
        (snd (checkAIConfiguration full_page (ai_config_response good_env) initial_app))
      = (True, emit (Invoke LoadUserSettings)
                 (snd (checkAIConfiguration full_page (ai_config_response good_env) initial_app)))"
proof -
  have h1: "\<not> isMonitoring initial_app" by (simp add: initial_app_def)
  have h2: "settings_tab full_page" by (simp add: full_page_def)
  have h4: "user_settings_response declining_env = Value empty_settings"
    "user_settings_response confirming_env = Value empty_settings"
    "user_settings_response good_env = Value good_settings"
    by (simp_all add: declining_env_def confirming_env_def good_env_def)
  have h5: "\<not> has_items (us_whitelist empty_settings)" "\<not> has_items (us_blacklist empty_settings)"
    "\<not> confirm_continue declining_env" "confirm_continue confirming_env"
    "has_items (us_whitelist good_settings)"
    by (simp_all add: empty_settings_def good_settings_def declining_env_def confirming_env_def
        good_env_def)
  have h6: "invocations initial_app = []"
    by (simp add: initial_app_def invocations_def)
  from empty_lists_soft_confirmation [OF h1 h2 first_check_passes(2) h4(1)] h5
  have declined: "\<not> isMonitoring (snd (toggleMonitoring full_page declining_env initial_app))"
    "invocations (snd (toggleMonitoring full_page declining_env initial_app))
           = invocations initial_app @ [LoadAIConfig, LoadUserSettings]"
    by blast+
  from empty_lists_soft_confirmation [OF h1 h2 first_check_passes(3) h4(2)] h5
  have confirmed: "prefix (invocations initial_app @ [LoadAIConfig, LoadUserSettings, LoadAIConfig, TestAIAPI])
        (invocations (snd (toggleMonitoring full_page confirming_env initial_app)))"
    by blast
  from empty_lists_soft_confirmation [OF h1 h2 first_check_passes(1) h4(3)] h5
  have configured: "checkWhiteBlacklistConfiguration full_page (user_settings_response good_env)
        (confirm_continue good_env)
        (snd (checkAIConfiguration full_page (ai_config_response good_env) initial_app))
      = (True, emit (Invoke LoadUserSettings)
                 (snd (checkAIConfiguration full_page (ai_config_response good_env) initial_app)))"
    by blast
  show ?thesis
    using h1 h2 h5 h6 declined confirmed configured by simp
qed

subsection \<open>Entering the idle state\<close>

text \<open>
  Claim C5, as amended. Stopping (\<open>toggleMonitoring\<close> while monitoring) sets the focus state
  to idle whatever it was. A start attempt in which a check fails leaves the focus state as
  it was. A classification result sets the focus state to idle exactly when the result's
  own state is idle (\<open>Unknown\<close> in a manual check).
\<close>

theorem idle_entry_points:
  "(isMonitoring s \<longrightarrow>
      currentFocusState (snd (toggleMonitoring pg e s)) = ''idle''
      \<and> \<not> isMonitoring (snd (toggleMonitoring pg e s)))
   \<and> (\<not> isMonitoring t
       \<and> \<not> (fst (checkAIConfiguration pg (ai_config_response f) t)
          \<and> fst (checkWhiteBlacklistConfiguration pg (user_settings_response f)
                   (confirm_continue f) (snd (checkAIConfiguration pg (ai_config_response f) t)))
          \<and> fst (testAPIConnectionForMonitoring pg (ai_config_response2 f) (test_response f)
                   (confirm_open_settings f)
                   (snd (checkWhiteBlacklistConfiguration pg (user_settings_response f)
                      (confirm_continue f) (snd (checkAIConfiguration pg (ai_config_response f) t))))))
      \<longrightarrow> currentFocusState (snd (toggleMonitoring pg f t)) = currentFocusState t
         \<and> \<not> isMonitoring (snd (toggleMonitoring pg f t)))
   \<and> (currentFocusState (apply_result v (ch, c)) = ''idle'' \<longleftrightarrow> cl_state c = Idle)"
  using stop_resets [of s pg e] failed_check_keeps_focus_state [of t pg f]
    apply_result_idle_iff [of v ch c]
  by blast

theorem idle_entry_points_witness:
  "isMonitoring monitoring_app
   \<and> currentFocusState monitoring_app = ''focused''
   \<and> currentFocusState (snd (toggleMonitoring full_page good_env monitoring_app)) = ''idle''
   \<and> \<not> isMonitoring checked_app
   \<and> \<not> fst (checkAIConfiguration full_page (ai_config_response blank_key_env) checked_app)
   \<and> currentFocusState (snd (toggleMonitoring full_page blank_key_env checked_app)) = ''focused''
   \<and> currentFocusState (apply_result monitoring_app (Manual, focused_result)) \<noteq> ''idle''"
proof -
  have h1: "isMonitoring monitoring_app" "currentFocusState monitoring_app = ''focused''"
    by (simp_all add: monitoring_app_def initial_app_def)
  have h2: "\<not> isMonitoring checked_app" "currentFocusState checked_app = ''focused''"
    by (simp_all add: checked_app_def initial_app_def)
  have h3: "\<not> fst (checkAIConfiguration full_page (ai_config_response blank_key_env) checked_app)"
    by (simp add: checkAIConfiguration_def loadAIConfig_def safeInvoke_def blank_key_env_def
        Let_def trim_def js_whitespace_def)
  have h4: "cl_state focused_result \<noteq> Idle"
    by (simp add: focused_result_def)
  from idle_entry_points [where s = monitoring_app and pg = full_page and e = good_env
      and t = checked_app and f = blank_key_env and v = monitoring_app and ch = Manual
      and c = focused_result] h1 h2 h3 h4
  show ?thesis by simp
qed

text \<open>
  Claim C5 as stated fails: while monitoring goes on, a manual check that reports \<open>Unknown\<close>
  moves the focus state from focused to idle.
\<close>

theorem classification_can_enter_idle_while_monitoring:
  "isMonitoring monitoring_app
   \<and> currentFocusState monitoring_app = ''focused''
   \<and> isMonitoring (updateDashboardFocusState unknown_result monitoring_app)
   \<and> currentFocusState (updateDashboardFocusState unknown_result monitoring_app) = ''idle''"
  by (simp add: monitoring_app_def initial_app_def unknown_result_def updateDashboardFocusState_def)

subsection \<open>Task binding\<close>

lemmas binding_defs =
  selectCurrentTask_def updateCurrentTaskDisplay_def updateTimerCurrentTask_def
  closeTaskSelector_def clearCurrentTask_def loadCurrentTask_def load_fields_def
  showNotification_def setTimeout_def emit_def Let_def

text \<open>
  The check inside \<open>updateCurrentTaskDisplay\<close> clears the binding exactly when the bound task
  is not in the list or the first list item with its id is checked.
\<close>

lemma task_gone_iff:
  "task_gone (Some i) items \<longleftrightarrow>
     (i \<notin> task_id ` set items
      \<or> (\<exists>t. find (\<lambda>t. task_id t = i) items = Some t \<and> checkbox t = Some True))"
  by (induction items) (auto simp add: task_gone_def)

lemma reconcile_clears_iff:
  assumes "current_task_text_el pg" and "task_list_el pg"
    and "text \<noteq> []" and "currentSelectedTask s = Some i" and "i \<noteq> []" and "plain_id i"
  shows "map_option currentSelectedTask (updateCurrentTaskDisplay pg (Some text) s)
           = Some (if task_gone (Some i) (task_list s) then None else Some i)"
  using assms by (simp add: updateCurrentTaskDisplay_def emit_def)

text \<open>\<open>clearCurrentTask\<close>, the path taken on completion and deletion, resets both mirrors.\<close>

lemma clearCurrentTask_mirrors:
  assumes "current_task_text_el pg" and "current_task_display_el pg"
  shows "currentSelectedTask (clearCurrentTask pg s) = None
         \<and> stored_task (clearCurrentTask pg s) = None
         \<and> current_task_text (clearCurrentTask pg s) = NoTask
         \<and> current_task_display (clearCurrentTask pg s) = NoTask"
  using assms by (simp add: binding_defs)

text \<open>A stored value that parses but has neither property drops the binding and resets both mirrors.\<close>

lemma load_without_fields:
  assumes "current_task_text_el pg" and "current_task_display_el pg"
    and "stored_task s = Some (Incomplete None None)"
  shows "currentSelectedTask (loadCurrentTask pg s) = None
         \<and> current_task_text (loadCurrentTask pg s) = NoTask
         \<and> current_task_display (loadCurrentTask pg s) = NoTask"
  using assms by (simp add: binding_defs)

text \<open>
  Claim C6 fails on the code where the check runs inside \<open>updateCurrentTaskDisplay\<close>: the
  function clears the binding, the stored selection and the dashboard mirror, but its callers
  go on with the text they were given. \<open>loadCurrentTask\<close>, with a stored selection whose task
  is completed or is not in the list, leaves the task's text in the timer panel;
  \<open>selectCurrentTask\<close> on a completed task also stores the selection again.
\<close>

theorem reconcile_leaves_timer_panel_stale:
  "currentSelectedTask (loadCurrentTask full_page completed_task_app) = None
   \<and> stored_task (loadCurrentTask full_page completed_task_app) = None
   \<and> current_task_text (loadCurrentTask full_page completed_task_app) = NoTask
   \<and> current_task_display (loadCurrentTask full_page completed_task_app) = Shows ''Write report''
   \<and> currentSelectedTask (loadCurrentTask full_page unlisted_task_app) = None
   \<and> current_task_text (loadCurrentTask full_page unlisted_task_app) = NoTask
   \<and> current_task_display (loadCurrentTask full_page unlisted_task_app) = Shows ''Write report''
   \<and> currentSelectedTask (selectCurrentTask full_page ''t1'' ''Write report'' completed_task_app) = None
   \<and> stored_task (selectCurrentTask full_page ''t1'' ''Write report'' completed_task_app)
       = Some (Task ''t1'' ''Write report'')
   \<and> current_task_display (selectCurrentTask full_page ''t1'' ''Write report'' completed_task_app)
       = Shows ''Write report''"
  by (simp add: binding_defs task_gone_def plain_id_def completed_task_app_def
      unlisted_task_app_def initial_app_def full_page_def)

subsection \<open>Repeated selection\<close>

lemma select_locked: "isProcessing s \<Longrightarrow> selectCurrentTask pg j u s = s"
  by (simp add: selectCurrentTask_def)

text \<open>
  What a selection that takes effect leaves behind: \<open>lookup_fails\<close> stands for the throwing
  \<open>querySelector\<close>, \<open>gone\<close> for a bound task that the check clears.
\<close>

lemma select_fields:
  fixes pg i t s
  assumes "i \<noteq> []" and "t \<noteq> []" and "\<not> isProcessing s"
  defines "checked \<equiv> current_task_text_el pg \<and> task_list_el pg"
  defines "lookup_fails \<equiv> checked \<and> \<not> plain_id i"
  defines "gone \<equiv> checked \<and> plain_id i \<and> task_gone (Some i) (task_list s)"
  shows "isProcessing (selectCurrentTask pg i t s)"
    and "task_list (selectCurrentTask pg i t s) = task_list s"
    and "currentSelectedTask (selectCurrentTask pg i t s) = (if gone then None else Some i)"
    and "stored_task (selectCurrentTask pg i t s)
           = (if lookup_fails then stored_task s
              else if storage_writable pg then Some (Task i t)
              else if gone then None else stored_task s)"
    and "current_task_text (selectCurrentTask pg i t s)
           = (if current_task_text_el pg \<and> \<not> lookup_fails
              then (if gone then NoTask else Shows t)
              else current_task_text s)"
    and "current_task_display (selectCurrentTask pg i t s)
           = (if current_task_display_el pg \<and> \<not> lookup_fails \<and> storage_writable pg
              then Shows t else current_task_display s)"
  using assms(1-3) unfolding checked_def lookup_fails_def gone_def
  by (simp_all add: selectCurrentTask_def updateCurrentTaskDisplay_def updateTimerCurrentTask_def
      closeTaskSelector_def showNotification_def setTimeout_def emit_def Let_def)
    blast

lemma select_twice:
  "selectCurrentTask pg i t (selectCurrentTask pg i t s) = selectCurrentTask pg i t s"
proof (cases "i = [] \<or> t = [] \<or> isProcessing s")
  case True
  then show ?thesis by (auto simp add: selectCurrentTask_def)
next
  case False
  then have "isProcessing (selectCurrentTask pg i t s)" by (simp add: select_fields(1))
  then show ?thesis by (rule select_locked)
qed

lemma select_repeated: "((selectCurrentTask pg i t) ^^ Suc n) s = selectCurrentTask pg i t s"
  by (induction n) (simp_all add: select_twice)

lemma attempts_while_locked:
  "isProcessing s \<Longrightarrow> foldl (\<lambda>s' (j, u). selectCurrentTask pg j u s') s reqs = s"
  by (induction reqs arbitrary: s) (simp_all add: select_locked split_beta)

lemma fire_reset_fields [simp]:
  "isProcessing (fire pg ResetProcessing s) = False"
  "task_list (fire pg ResetProcessing s) = task_list s"
  "stored_task (fire pg ResetProcessing s) = stored_task s"
  "currentSelectedTask (fire pg ResetProcessing s) = currentSelectedTask s"
  "current_task_text (fire pg ResetProcessing s) = current_task_text s"
  "current_task_display (fire pg ResetProcessing s) = current_task_display s"
  by simp_all

lemma select_effects:
  assumes "i \<noteq> []" and "t \<noteq> []" and "\<not> isProcessing s"
    and "plain_id i" and "storage_writable pg"
  shows "effects (selectCurrentTask pg i t s)
           = effects s
             @ (if current_task_text_el pg \<and> task_list_el pg \<and> task_gone (Some i) (task_list s)
                then [StorageRemove] else [])
             @ [StorageSet i t, InPage (TaskSelected t) Info]"
  using assms
  by (simp_all add: selectCurrentTask_def updateCurrentTaskDisplay_def updateTimerCurrentTask_def
      closeTaskSelector_def showNotification_def setTimeout_def emit_def Let_def)

lemma select_again_after_reset:
  assumes "i \<noteq> []" and "t \<noteq> []" and "\<not> isProcessing s"
  shows "currentSelectedTask
             (selectCurrentTask pg i t (fire pg ResetProcessing (selectCurrentTask pg i t s)))
            = currentSelectedTask (selectCurrentTask pg i t s)"
    and "stored_task
             (selectCurrentTask pg i t (fire pg ResetProcessing (selectCurrentTask pg i t s)))
            = stored_task (selectCurrentTask pg i t s)"
    and "current_task_text
             (selectCurrentTask pg i t (fire pg ResetProcessing (selectCurrentTask pg i t s)))
            = current_task_text (selectCurrentTask pg i t s)"
    and "current_task_display
             (selectCurrentTask pg i t (fire pg ResetProcessing (selectCurrentTask pg i t s)))
            = current_task_display (selectCurrentTask pg i t s)"
  using assms by (simp_all add: select_fields del: fire.simps) blast+

text \<open>
  An id with a double quote: the lookup throws, nothing is stored, the timer panel and the
  selector stay as they were, and the failure notification is shown.
\<close>

lemma select_with_quote_in_id:
  "\<not> plain_id quoted_id
   \<and> effects (selectCurrentTask full_page quoted_id ''Write report'' open_task_app)
       = [InPage SelectionFailed Info]
   \<and> stored_task (selectCurrentTask full_page quoted_id ''Write report'' open_task_app) = None
   \<and> current_task_display (selectCurrentTask full_page quoted_id ''Write report'' open_task_app)
       = NoTask
   \<and> selector_hidden (selectCurrentTask full_page quoted_id ''Write report'' open_task_app) = False
   \<and> isProcessing (selectCurrentTask full_page quoted_id ''Write report'' open_task_app)"
  by (simp add: binding_defs plain_id_def quoted_id_def open_task_app_def initial_app_def
      full_page_def)

text \<open>
  Claim C7. Selecting the same task again, any number of times, before the 500 ms timer has
  reset the flag leaves the whole state, effects included, as after the first selection.
  After a selection that took effect, every further attempt made before the reset is dropped;
  once the reset callback has run, selecting the same task again gives the same binding,
  stored selection and mirrors. For a plain id and a writable storage that selection made
  one storage write and one notification and stored the selection.
\<close>

theorem selection_idempotent:
  "((selectCurrentTask pg i t) ^^ Suc n) s = selectCurrentTask pg i t s
   \<and> (i \<noteq> [] \<and> t \<noteq> [] \<and> \<not> isProcessing s \<longrightarrow>
        foldl (\<lambda>s' (j, u). selectCurrentTask pg j u s') (selectCurrentTask pg i t s) reqs
          = selectCurrentTask pg i t s
        \<and> currentSelectedTask
             (selectCurrentTask pg i t (fire pg ResetProcessing (selectCurrentTask pg i t s)))
            = currentSelectedTask (selectCurrentTask pg i t s)
        \<and> stored_task
             (selectCurrentTask pg i t (fire pg ResetProcessing (selectCurrentTask pg i t s)))
            = stored_task (selectCurrentTask pg i t s)
        \<and> current_task_text
             (selectCurrentTask pg i t (fire pg ResetProcessing (selectCurrentTask pg i t s)))
            = current_task_text (selectCurrentTask pg i t s)
        \<and> current_task_display
             (selectCurrentTask pg i t (fire pg ResetProcessing (selectCurrentTask pg i t s)))
            = current_task_display (selectCurrentTask pg i t s))
   \<and> (i \<noteq> [] \<and> t \<noteq> [] \<and> \<not> isProcessing s \<and> plain_id i \<and> storage_writable pg \<longrightarrow>
        effects (selectCurrentTask pg i t s)
          = effects s
            @ (if current_task_text_el pg \<and> task_list_el pg \<and> task_gone (Some i) (task_list s)
               then [StorageRemove] else [])
            @ [StorageSet i t, InPage (TaskSelected t) Info]
        \<and> stored_task (selectCurrentTask pg i t s) = Some (Task i t))"
proof -
  have rapid: "((selectCurrentTask pg i t) ^^ Suc n) s = selectCurrentTask pg i t s"
    by (rule select_repeated)
  have later: "foldl (\<lambda>s' (j, u). selectCurrentTask pg j u s') (selectCurrentTask pg i t s) reqs
          = selectCurrentTask pg i t s"
    if "i \<noteq> []" "t \<noteq> []" "\<not> isProcessing s"
    using that by (simp add: attempts_while_locked select_fields(1))
  have stored: "stored_task (selectCurrentTask pg i t s) = Some (Task i t)"
    if "i \<noteq> []" "t \<noteq> []" "\<not> isProcessing s" "plain_id i" "storage_writable pg"
    using that by (simp add: select_fields(4))
  show ?thesis
    using rapid later stored select_again_after_reset [of i t s pg] select_effects [of i t s pg]
    by blast
qed

text \<open>An open task selected three times in a row: one write, one notification.\<close>

theorem selection_idempotent_witness:
  "''t1'' \<noteq> [] \<and> ''Write report'' \<noteq> [] \<and> \<not> isProcessing open_task_app
   \<and> plain_id ''t1'' \<and> storage_writable full_page
   \<and> foldl (\<lambda>s' (j, u). selectCurrentTask full_page j u s')
        (selectCurrentTask full_page ''t1'' ''Write report'' open_task_app)
        [(''t1'', ''Write report''), (''t1'', ''Write report'')]
      = selectCurrentTask full_page ''t1'' ''Write report'' open_task_app
   \<and> effects (selectCurrentTask full_page ''t1'' ''Write report'' open_task_app)
      = [StorageSet ''t1'' ''Write report'', InPage (TaskSelected ''Write report'') Info]
   \<and> stored_task (selectCurrentTask full_page ''t1'' ''Write report'' open_task_app)
      = Some (Task ''t1'' ''Write report'')
   \<and> currentSelectedTask (selectCurrentTask full_page ''t1'' ''Write report'' open_task_app)
      = Some ''t1''"
proof -
  have h: "''t1'' \<noteq> []" "''Write report'' \<noteq> []" "\<not> isProcessing open_task_app"
    "plain_id ''t1''" "storage_writable full_page"
    by (simp_all add: open_task_app_def initial_app_def plain_id_def full_page_def)
  have g: "\<not> task_gone (Some ''t1'') (task_list open_task_app)" "effects open_task_app = []"
    by (simp_all add: task_gone_def open_task_app_def initial_app_def)
  have c: "currentSelectedTask (selectCurrentTask full_page ''t1'' ''Write report'' open_task_app)
      = Some ''t1''"
    using h g by (simp add: select_fields)
  from selection_idempotent [where pg = full_page and i = "''t1''" and t = "''Write report''"
      and n = 0 and s = open_task_app
      and reqs = "[(''t1'', ''Write report''), (''t1'', ''Write report'')]"] h
  have "foldl (\<lambda>s' (j, u). selectCurrentTask full_page j u s')
        (selectCurrentTask full_page ''t1'' ''Write report'' open_task_app)
        [(''t1'', ''Write report''), (''t1'', ''Write report'')]
      = selectCurrentTask full_page ''t1'' ''Write report'' open_task_app"
    and "effects (selectCurrentTask full_page ''t1'' ''Write report'' open_task_app)
          = effects open_task_app
            @ (if current_task_text_el full_page \<and> task_list_el full_page
                  \<and> task_gone (Some ''t1'') (task_list open_task_app)
               then [StorageRemove] else [])
            @ [StorageSet ''t1'' ''Write report'', InPage (TaskSelected ''Write report'') Info]"
    and "stored_task (selectCurrentTask full_page ''t1'' ''Write report'' open_task_app)
      = Some (Task ''t1'' ''Write report'')"
    by blast+
  then show ?thesis using h g c by simp
qed

subsection \<open>Delivery of interventions\<close>

lemmas intervention_defs =
  showDistractionIntervention_def intervention_style_def showNotification_def setTimeout_def
  emit_def dismissDistractionModal_def Let_def

text \<open>
  What a delivery emits: the in-page notification always; with the flag \<open>showSystemNotif\<close>,
  which is set exactly when the type is not \<open>encouragement\<close>, a system notification if
  permission is granted and a permission request if it is neither granted nor denied,
  provided \<open>window\<close> has \<open>Notification\<close>; the sound if it is enabled.
\<close>

lemma intervention_effects:
  "snd (snd (intervention_style p)) = (event_type p \<noteq> ''encouragement'')
   \<and> effects (showDistractionIntervention pg p s) =
       effects s
       @ [InPage (fst (intervention_style p)) (fst (snd (intervention_style p)))]
       @ (if event_type p \<noteq> ''encouragement'' \<and> notification_api pg
             \<and> notification_permission s \<noteq> Denied
          then [if notification_permission s = Granted
                then SystemNotification (fst (intervention_style p))
                else PermissionRequest (fst (intervention_style p))]
          else [])
       @ (if sound_enabled p then [Sound (if urgent p then 800 else 600)] else [])"
  by (simp add: intervention_defs)

text \<open>
  Claim C8. For every delivered intervention event, encouragement events being not urgent,
  the in-page notification is always raised, and the flag \<open>showSystemNotif\<close> is set exactly
  when the event is urgent or its type is not \<open>encouragement\<close>; with the flag set, a system
  notification is created if permission is granted and permission is requested if it is
  neither granted nor denied, provided \<open>window\<close> has \<open>Notification\<close>.
\<close>

theorem os_notification_iff_urgent_or_not_encouragement:
  assumes "event_type p = ''encouragement'' \<longrightarrow> \<not> urgent p"
  shows "snd (snd (intervention_style p)) = (urgent p \<or> event_type p \<noteq> ''encouragement'')
   \<and> effects (showDistractionIntervention pg p s) =
       effects s
       @ [InPage (fst (intervention_style p)) (fst (snd (intervention_style p)))]
       @ (if (urgent p \<or> event_type p \<noteq> ''encouragement'') \<and> notification_api pg
             \<and> notification_permission s \<noteq> Denied
          then [if notification_permission s = Granted
                then SystemNotification (fst (intervention_style p))
                else PermissionRequest (fst (intervention_style p))]
          else [])
       @ (if sound_enabled p then [Sound (if urgent p then 800 else 600)] else [])"
proof -
  have "(urgent p \<or> event_type p \<noteq> ''encouragement'') = (event_type p \<noteq> ''encouragement'')"
    using assms by blast
  then show ?thesis
    using intervention_effects [of p pg s] by simp
qed

text \<open>An encouragement stays in the page; a light warning also reaches the system.\<close>

theorem os_notification_iff_urgent_or_not_encouragement_witness:
  "event_type encouragement = ''encouragement'' \<and> \<not> urgent encouragement
   \<and> effects (showDistractionIntervention full_page encouragement granted_app)
       = [InPage EncouragementNotice Success]
   \<and> event_type light_warning \<noteq> ''encouragement''
   \<and> effects (showDistractionIntervention full_page light_warning granted_app)
       = [InPage FocusReminderNotice Warning, SystemNotification FocusReminderNotice]"
proof -
  have e: "event_type encouragement = ''encouragement''" "\<not> urgent encouragement"
    "\<not> sound_enabled encouragement"
    "intervention_style encouragement = (EncouragementNotice, Success, False)"
    by (simp_all add: encouragement_def intervention_style_def)
  have w: "event_type light_warning \<noteq> ''encouragement''" "\<not> urgent light_warning"
    "\<not> sound_enabled light_warning"
    "intervention_style light_warning = (FocusReminderNotice, Warning, True)"
    by (simp_all add: light_warning_def intervention_style_def)
  have g: "notification_api full_page" "notification_permission granted_app = Granted"
    "effects granted_app = []"
    by (simp_all add: full_page_def granted_app_def initial_app_def)
  have h1: "event_type encouragement = ''encouragement'' \<longrightarrow> \<not> urgent encouragement"
    using e by simp
  have h2: "event_type light_warning = ''encouragement'' \<longrightarrow> \<not> urgent light_warning"
    using w by simp
  from os_notification_iff_urgent_or_not_encouragement [OF h1, of full_page granted_app]
  have a: "effects (showDistractionIntervention full_page encouragement granted_app)
       = [InPage EncouragementNotice Success]"
    using e g by simp
  from os_notification_iff_urgent_or_not_encouragement [OF h2, of full_page granted_app]
  have b: "effects (showDistractionIntervention full_page light_warning granted_app)
       = [InPage FocusReminderNotice Warning, SystemNotification FocusReminderNotice]"
    using w g by simp
  show ?thesis using e w a b by simp
qed

text \<open>
  The condition on encouragement events matters: an urgent event of type \<open>encouragement\<close>,
  which the policy does not emit, raises the in-page notification only.
\<close>

lemma urgent_encouragement_stays_in_app:
  "urgent urgent_encouragement
   \<and> notification_api full_page
   \<and> notification_permission granted_app = Granted
   \<and> effects (showDistractionIntervention full_page urgent_encouragement granted_app)
       = [InPage EncouragementNotice Success]"
  by (simp add: intervention_defs urgent_encouragement_def encouragement_def granted_app_def
      initial_app_def full_page_def)

subsection \<open>Automatic dismissal\<close>

text \<open>
  The timer is registered for the event's duration, ten seconds if the duration is missing
  or zero; a delivery replaces the element that is shown.
\<close>

lemma auto_close_timer:
  "timers (showDistractionIntervention pg p s)
     = timers s @ [(now s + auto_close_delay (duration_seconds p), DismissModal)]"
  by (simp add: intervention_defs split_beta)

lemma auto_close_default: "auto_close_delay None = 10000 \<and> auto_close_delay (Some 0) = 10000"
  by (simp add: timeout_delay_def)

text \<open>A duration between 2147484 and 4294967 seconds overflows to a negative delay.\<close>

lemma auto_close_overflow: "auto_close_delay (Some 2147484) = 0"
  by (simp add: timeout_delay_def)

lemma intervention_replaces:
  "length (distraction_modals s) \<le> 1 \<Longrightarrow>
   distraction_modals (showDistractionIntervention pg p s)
     = [\<lparr> mid = next_mid s, modal_type = event_type p, modal_urgent = urgent p,
          announced_seconds = duration_seconds p, fading = False \<rparr>]"
  by (cases "distraction_modals s") (simp_all add: intervention_defs split_beta)

text \<open>
  With no other timer pending, a delivered element stays until its delay has passed and
  is gone 300 ms later.
\<close>

lemma single_intervention_lifetime:
  assumes "timers s = []" and "distraction_modals s = []"
  shows "t < now s + auto_close_delay (duration_seconds p) \<Longrightarrow>
           distraction_modals (run_until pg t (showDistractionIntervention pg p s))
             = [\<lparr> mid = next_mid s, modal_type = event_type p, modal_urgent = urgent p,
                  announced_seconds = duration_seconds p, fading = False \<rparr>]"
    and "now s + auto_close_delay (duration_seconds p) + 300 \<le> t \<Longrightarrow>
           distraction_modals (run_until pg t (showDistractionIntervention pg p s)) = []"
  using assms
  by (simp_all add: run_until.simps intervention_defs split_beta del: auto_close_delay.simps
      cong: option.case_cong_weak)

text \<open>
  Claim C9 fails on the code when a delivery replaces an element whose timer is still
  pending. The warning delivered at 0 registers its dismissal for 10000. The encouragement
  delivered at 9000 replaces it and announces thirty seconds; at 10000 the warning's timer
  runs \<open>dismissDistractionModal\<close>, which finds the encouragement by its id, and at 10300 the
  encouragement is removed, 1300 ms after its delivery.
\<close>

theorem stale_timer_dismisses_replacement:
  "distraction_modals (run_until full_page 9000 first_delivered)
     = [\<lparr> mid = 0, modal_type = ''light_distraction'', modal_urgent = False,
          announced_seconds = Some 10, fading = False \<rparr>]
   \<and> now second_delivered = 9000
   \<and> distraction_modals second_delivered
     = [\<lparr> mid = 1, modal_type = ''encouragement'', modal_urgent = False,
          announced_seconds = Some 30, fading = False \<rparr>]
   \<and> distraction_modals (run_until full_page 10000 second_delivered)
     = [\<lparr> mid = 1, modal_type = ''encouragement'', modal_urgent = False,
          announced_seconds = Some 30, fading = True \<rparr>]
   \<and> distraction_modals (run_until full_page 10300 second_delivered) = []
   \<and> now (run_until full_page 10300 second_delivered) = 10300"
  by (simp add: second_delivered_def first_delivered_def run_until.simps intervention_defs
      timeout_delay_def full_page_def initial_app_def light_warning_def encouragement_def
      cong: option.case_cong_weak)

end
